theory Spec2Isabelle
  imports Complex_Main
begin

section \<open>Numbers and objects\<close>

text \<open>
  A TypeScript \<open>number\<close> is modelled as a \<open>real\<close> that stands for a finite
  number; the values \<open>NaN\<close> and \<open>Infinity\<close> are not modelled. \<open>Math.min\<close> and
  \<open>Math.max\<close> are \<open>min\<close> and \<open>max\<close>. The operations of the updater and of the
  connection manager are first written with exact arithmetic. The repeated decay,
  whose behaviour depends on rounding, is written a second time with every arithmetic
  operation rounded to binary64 (section "Binary64 arithmetic"). A \<open>Map\<close> is a partial
  function; an object is a record and is held by value, a mutation in place being
  written as the update of the map entry that holds the object. An \<open>emit\<close> of the
  \<open>EventEmitter\<close> base class appends the notification to a log kept in the state.
\<close>

section \<open>Personality records\<close>

datatype category = emotional | behavioral | cognitive | social

record PersonalityTrait =
  name :: string
  trait_value :: real
  category :: category
  description :: string

record Mood =
  happiness :: real
  energy :: real
  stress :: real
  dominance :: real

text \<open>\<open>Partial<Personality['mood']>\<close>: every field may be absent.\<close>

record PartialMood =
  happiness_opt :: "real option"
  energy_opt :: "real option"
  stress_opt :: "real option"
  dominance_opt :: "real option"

record Personality =
  pid :: string
  baseTraits :: "string \<rightharpoonup> PersonalityTrait"
  adaptiveTraits :: "string \<rightharpoonup> PersonalityTrait"
  mood :: Mood
  relationships :: "string \<rightharpoonup> real"

section \<open>PersonalityUpdater\<close>

record EmotionalEvent =
  event_type :: string
  intensity :: real
  valence :: real
  source :: string
  event_context :: "(string \<times> string) list option"

record PersonalityUpdate =
  traitUpdates :: "string \<rightharpoonup> real"
  moodUpdates :: PartialMood
  relationshipUpdates :: "string \<rightharpoonup> real"

record PersonalityUpdater =
  emotionalMemory :: "string \<rightharpoonup> EmotionalEvent list"

definition decayRate :: real where
  "decayRate = 0.1"

definition adaptationRate :: real where
  "adaptationRate = 0.05"

definition new_PersonalityUpdater :: PersonalityUpdater where
  "new_PersonalityUpdater = \<lparr>emotionalMemory = Map.empty\<rparr>"

definition calculateTraitUpdates :: "Personality \<Rightarrow> EmotionalEvent \<Rightarrow> (string \<rightharpoonup> real)" where
  "calculateTraitUpdates personality event =
     (if event_type event = ''socialInteraction''
        then [''sociability'' \<mapsto> valence event * adaptationRate]
      else if event_type event = ''challenge''
        then [''resilience'' \<mapsto> intensity event * adaptationRate]
      else if event_type event = ''learning''
        then [''curiosity'' \<mapsto> valence event * adaptationRate]
      else Map.empty)"

text \<open>
  In \<open>(moodUpdates.stress || 0) + 0.2\<close> the \<open>||\<close> replaces a stress of \<open>0\<close> by \<open>0\<close>,
  so it is the identity on the numbers modelled here.
\<close>

definition calculateMoodUpdates :: "Personality \<Rightarrow> EmotionalEvent \<Rightarrow> PartialMood" where
  "calculateMoodUpdates personality event =
     (let base =
        \<lparr>happiness_opt = Some (valence event * intensity event),
         energy_opt = Some (intensity event * (if valence event > 0 then 1 else - 0.5)),
         stress_opt = Some (intensity event * (if valence event < 0 then 1 else - 0.5)),
         dominance_opt = None\<rparr>
      in if event_type event = ''conflict''
         then base\<lparr>stress_opt :=
                      Some (min 1 ((case stress_opt base of None \<Rightarrow> 0 | Some s \<Rightarrow> s) + 0.2)),
                    dominance_opt := Some (if valence event > 0 then 0.1 else - 0.1)\<rparr>
         else base)"

text \<open>
  \<open>event.source && event.source !== personality.id\<close>: a string is truthy unless it
  is empty. \<open>relationships.get(source) || 0\<close> is \<open>0\<close> for an absent entry.
\<close>

definition calculateRelationshipUpdates :: "Personality \<Rightarrow> EmotionalEvent \<Rightarrow> (string \<rightharpoonup> real)" where
  "calculateRelationshipUpdates personality event =
     (if source event \<noteq> [] \<and> source event \<noteq> pid personality
      then (let currentRelationship =
                  (case relationships personality (source event) of None \<Rightarrow> 0 | Some r \<Rightarrow> r);
                update = valence event * intensity event * adaptationRate
            in [source event \<mapsto> max (- 1) (min 1 (currentRelationship + update))])
      else Map.empty)"

definition processEvent ::
  "PersonalityUpdater \<Rightarrow> Personality \<Rightarrow> EmotionalEvent \<Rightarrow> PersonalityUpdate \<times> PersonalityUpdater" where
  "processEvent up personality event =
     (let memory = (case emotionalMemory up (pid personality) of None \<Rightarrow> [] | Some m \<Rightarrow> m);
          up' = up\<lparr>emotionalMemory := (emotionalMemory up)(pid personality \<mapsto> memory @ [event])\<rparr>
      in (\<lparr>traitUpdates = calculateTraitUpdates personality event,
           moodUpdates = calculateMoodUpdates personality event,
           relationshipUpdates = calculateRelationshipUpdates personality event\<rparr>, up'))"

text \<open>
  \<open>decayPersonality\<close> visits every adaptive trait and writes a delta only when a base
  trait of the same name exists; the four mood fields each get a delta.
\<close>

definition decayPersonality :: "Personality \<Rightarrow> PersonalityUpdate" where
  "decayPersonality personality =
     \<lparr>traitUpdates =
        (\<lambda>n. case adaptiveTraits personality n of
                None \<Rightarrow> None
              | Some trait \<Rightarrow>
                  (case baseTraits personality n of
                     None \<Rightarrow> None
                   | Some baseTrait \<Rightarrow> Some ((trait_value baseTrait - trait_value trait) * decayRate))),
      moodUpdates =
        \<lparr>happiness_opt = Some ((0.5 - happiness (mood personality)) * decayRate),
         energy_opt = Some ((0.5 - energy (mood personality)) * decayRate),
         stress_opt = Some ((0.5 - stress (mood personality)) * decayRate),
         dominance_opt = Some ((0.5 - dominance (mood personality)) * decayRate)\<rparr>,
      relationshipUpdates = Map.empty\<rparr>"

text \<open>
  \<open>Array.prototype.slice(start)\<close> with one integer argument: a negative start counts
  from the end and stops at the first element, a positive one stops at the length.
\<close>

definition slice_from :: "int \<Rightarrow> 'a list \<Rightarrow> 'a list" where
  "slice_from start xs =
     (let len = int (length xs);
          k = (if start < 0 then max (len + start) 0 else min start len)
      in drop (nat k) xs)"

text \<open>
  The optional \<open>limit\<close> is an integer here. \<open>limit ? ... : memory\<close> takes the second
  branch for an absent limit and for the limit \<open>0\<close>.
\<close>

definition getEmotionalMemory :: "PersonalityUpdater \<Rightarrow> string \<Rightarrow> int option \<Rightarrow> EmotionalEvent list" where
  "getEmotionalMemory up personalityId limit =
     (let memory = (case emotionalMemory up personalityId of None \<Rightarrow> [] | Some m \<Rightarrow> m)
      in case limit of
           None \<Rightarrow> memory
         | Some l \<Rightarrow> if l = 0 then memory else slice_from (- l) memory)"

definition clearEmotionalMemory :: "PersonalityUpdater \<Rightarrow> string \<Rightarrow> PersonalityUpdater" where
  "clearEmotionalMemory up personalityId =
     up\<lparr>emotionalMemory := (emotionalMemory up)(personalityId := None)\<rparr>"

section \<open>ConnectionManager\<close>

record ConnectionStrength =
  strength_value :: real
  trust :: real
  familiarity :: real
  lastInteraction :: real

text \<open>\<open>Partial<ConnectionStrength>\<close>: what a rule returns and what \<open>connect\<close> takes.\<close>

record PartialConnectionStrength =
  value_opt :: "real option"
  trust_opt :: "real option"
  familiarity_opt :: "real option"
  lastInteraction_opt :: "real option"

record Impact =
  impact_trust :: real
  impact_familiarity :: real
  connectionStrength :: real

record AgentInteraction =
  interaction_type :: string
  sourceId :: string
  targetId :: string
  timestamp :: real
  content :: string
  impact :: Impact

record ConnectionRule =
  condition :: "AgentInteraction \<Rightarrow> bool"
  rule_impact :: "AgentInteraction \<Rightarrow> ConnectionStrength \<Rightarrow> PartialConnectionStrength"

datatype connection_event =
  Connected string string ConnectionStrength
| Disconnected string string
| ConnectionUpdated string string ConnectionStrength AgentInteraction

record ConnectionManager =
  connections :: "string \<rightharpoonup> (string \<rightharpoonup> ConnectionStrength)"
  interactionHistory :: "string \<rightharpoonup> AgentInteraction list"
  rules :: "ConnectionRule list"
  emitted :: "connection_event list"

definition positiveRule :: ConnectionRule where
  "positiveRule =
     \<lparr>condition = (\<lambda>interaction. connectionStrength (impact interaction) > 0),
      rule_impact = (\<lambda>interaction current.
        \<lparr>value_opt = Some (min 1 (strength_value current + connectionStrength (impact interaction))),
         trust_opt = Some (min 1 (trust current + impact_trust (impact interaction))),
         familiarity_opt = Some (min 1 (familiarity current + impact_familiarity (impact interaction))),
         lastInteraction_opt = None\<rparr>)\<rparr>"

definition negativeRule :: ConnectionRule where
  "negativeRule =
     \<lparr>condition = (\<lambda>interaction. connectionStrength (impact interaction) < 0),
      rule_impact = (\<lambda>interaction current.
        \<lparr>value_opt = Some (max (- 1) (strength_value current + connectionStrength (impact interaction))),
         trust_opt = Some (max 0 (trust current + impact_trust (impact interaction))),
         familiarity_opt = None,
         lastInteraction_opt = None\<rparr>)\<rparr>"

definition addRule :: "ConnectionManager \<Rightarrow> ConnectionRule \<Rightarrow> ConnectionManager" where
  "addRule cm rule = cm\<lparr>rules := rules cm @ [rule]\<rparr>"

definition initializeDefaultRules :: "ConnectionManager \<Rightarrow> ConnectionManager" where
  "initializeDefaultRules cm = addRule (addRule cm positiveRule) negativeRule"

definition new_ConnectionManager :: ConnectionManager where
  "new_ConnectionManager =
     initializeDefaultRules
       \<lparr>connections = Map.empty, interactionHistory = Map.empty, rules = [], emitted = []\<rparr>"

text \<open>
  \<open>connect\<close> takes the clock reading \<open>Date.now()\<close> as the argument \<open>now\<close>. It reads
  \<open>value\<close>, \<open>trust\<close> and \<open>familiarity\<close> of the initial strength with \<open>??\<close> and stores
  them as they are.
\<close>

definition connect ::
  "ConnectionManager \<Rightarrow> string \<Rightarrow> string \<Rightarrow> PartialConnectionStrength \<Rightarrow> real \<Rightarrow> ConnectionManager" where
  "connect cm src tgt initialStrength now =
     (let inner = (case connections cm src of None \<Rightarrow> Map.empty | Some m \<Rightarrow> m);
          connection =
            \<lparr>strength_value = (case value_opt initialStrength of None \<Rightarrow> 0 | Some v \<Rightarrow> v),
             trust = (case trust_opt initialStrength of None \<Rightarrow> 0.1 | Some v \<Rightarrow> v),
             familiarity = (case familiarity_opt initialStrength of None \<Rightarrow> 0 | Some v \<Rightarrow> v),
             lastInteraction = now\<rparr>
      in cm\<lparr>connections := (connections cm)(src \<mapsto> inner(tgt \<mapsto> connection)),
            emitted := emitted cm @ [Connected src tgt connection]\<rparr>)"

definition disconnect :: "ConnectionManager \<Rightarrow> string \<Rightarrow> string \<Rightarrow> ConnectionManager" where
  "disconnect cm src tgt =
     (let conns = (case connections cm src of
                     None \<Rightarrow> connections cm
                   | Some m \<Rightarrow> (connections cm)(src \<mapsto> m(tgt := None)))
      in cm\<lparr>connections := conns, emitted := emitted cm @ [Disconnected src tgt]\<rparr>)"

definition getConnection :: "ConnectionManager \<Rightarrow> string \<Rightarrow> string \<Rightarrow> ConnectionStrength option" where
  "getConnection cm src tgt =
     (case connections cm src of None \<Rightarrow> None | Some m \<Rightarrow> m tgt)"

text \<open>\<open>Object.assign(connection, updates)\<close>: every field the update holds is overwritten.\<close>

definition assign :: "ConnectionStrength \<Rightarrow> PartialConnectionStrength \<Rightarrow> ConnectionStrength" where
  "assign c u =
     \<lparr>strength_value = (case value_opt u of None \<Rightarrow> strength_value c | Some v \<Rightarrow> v),
      trust = (case trust_opt u of None \<Rightarrow> trust c | Some v \<Rightarrow> v),
      familiarity = (case familiarity_opt u of None \<Rightarrow> familiarity c | Some v \<Rightarrow> v),
      lastInteraction = (case lastInteraction_opt u of None \<Rightarrow> lastInteraction c | Some v \<Rightarrow> v)\<rparr>"

text \<open>
  The matching rules are applied in list order, each to the connection as the rules
  before it left it.
\<close>

fun applyRules :: "ConnectionRule list \<Rightarrow> AgentInteraction \<Rightarrow> ConnectionStrength \<Rightarrow> ConnectionStrength" where
  "applyRules [] interaction connection = connection"
| "applyRules (rule # rs) interaction connection =
     applyRules rs interaction (assign connection (rule_impact rule interaction connection))"

definition historyKey :: "AgentInteraction \<Rightarrow> string" where
  "historyKey interaction = sourceId interaction @ ''-'' @ targetId interaction"

definition recordInteraction :: "ConnectionManager \<Rightarrow> AgentInteraction \<Rightarrow> ConnectionManager" where
  "recordInteraction cm interaction =
     (let key = historyKey interaction;
          history = (case interactionHistory cm key of None \<Rightarrow> [] | Some h \<Rightarrow> h);
          cm1 = cm\<lparr>interactionHistory := (interactionHistory cm)(key \<mapsto> history @ [interaction])\<rparr>
      in case getConnection cm1 (sourceId interaction) (targetId interaction) of
           None \<Rightarrow> cm1
         | Some connection \<Rightarrow>
             (let matching = filter (\<lambda>rule. condition rule interaction) (rules cm1);
                  connection' = (applyRules matching interaction connection)
                                  \<lparr>lastInteraction := timestamp interaction\<rparr>;
                  inner = (case connections cm1 (sourceId interaction) of
                             None \<Rightarrow> Map.empty | Some m \<Rightarrow> m)
              in cm1\<lparr>connections :=
                        (connections cm1)(sourceId interaction \<mapsto> inner(targetId interaction \<mapsto> connection')),
                      emitted := emitted cm1 @
                        [ConnectionUpdated (sourceId interaction) (targetId interaction) connection' interaction]\<rparr>))"

section \<open>Concrete inputs\<close>

text \<open>A personality, events and interactions on which the theorems below are run.\<close>

definition sociabilityTrait :: "real \<Rightarrow> PersonalityTrait" where
  "sociabilityTrait v =
     \<lparr>name = ''sociability'', trait_value = v, category = social,
      description = ''Tendency to seek social interaction''\<rparr>"

definition alice :: Personality where
  "alice =
     \<lparr>pid = ''alice'',
      baseTraits = [''sociability'' \<mapsto> sociabilityTrait 0.9],
      adaptiveTraits = [''sociability'' \<mapsto> sociabilityTrait 0.4],
      mood = \<lparr>happiness = 0.7, energy = 0.6, stress = 0.3, dominance = 0.4\<rparr>,
      relationships = Map.empty\<rparr>"

definition eventOf :: "string \<Rightarrow> real \<Rightarrow> real \<Rightarrow> EmotionalEvent" where
  "eventOf ty i v =
     \<lparr>event_type = ty, intensity = i, valence = v, source = ''bob'', event_context = None\<rparr>"

text \<open>The event of the social-interaction example: intensity 1, valence 0.6, source X.\<close>

definition socialEventX :: "(string \<times> string) list option \<Rightarrow> EmotionalEvent" where
  "socialEventX ctx =
     \<lparr>event_type = ''socialInteraction'', intensity = 1, valence = 0.6,
      source = ''X'', event_context = ctx\<rparr>"

definition noOverrides :: PartialConnectionStrength where
  "noOverrides =
     \<lparr>value_opt = None, trust_opt = None, familiarity_opt = None, lastInteraction_opt = None\<rparr>"

definition interactionOf :: "real \<Rightarrow> real \<Rightarrow> real \<Rightarrow> AgentInteraction" where
  "interactionOf t f s =
     \<lparr>interaction_type = ''chat'', sourceId = ''a'', targetId = ''b'', timestamp = 7,
      content = ''hello'',
      impact = \<lparr>impact_trust = t, impact_familiarity = f, connectionStrength = s\<rparr>\<rparr>"

text \<open>The log of an agent, empty when the agent has none.\<close>

definition memoryOf :: "PersonalityUpdater \<Rightarrow> string \<Rightarrow> EmotionalEvent list" where
  "memoryOf up personalityId =
     (case emotionalMemory up personalityId of None \<Rightarrow> [] | Some m \<Rightarrow> m)"

definition drifter :: Personality where
  "drifter =
     \<lparr>pid = ''drifter'',
      baseTraits = Map.empty,
      adaptiveTraits =
        [''focus'' \<mapsto> \<lparr>name = ''focus'', trait_value = 0.3, category = cognitive,
                       description = ''Attention kept on a task''\<rparr>],
      mood = \<lparr>happiness = 0.5, energy = 0.5, stress = 0.5, dominance = 0.5\<rparr>,
      relationships = Map.empty\<rparr>"

text \<open>The manager after its constructor and \<open>connect('a', 'b')\<close> at time 0.\<close>

definition cm_ab :: ConnectionManager where
  "cm_ab = connect new_ConnectionManager ''a'' ''b'' noOverrides 0"

section \<open>Binary64 arithmetic\<close>

text \<open>
  A finite binary64 number is an integer of magnitude below \<open>2^53\<close> times a power of
  two whose exponent is at least \<open>-1074\<close>. \<open>round64\<close> rounds a real to the nearest such
  number, ties to the even integer, as every arithmetic operation of the language
  does: \<open>quantum x\<close> is the exponent of the spacing of the binary64 numbers around
  \<open>x\<close>, \<open>rne\<close> rounds the scaled value to an integer. A real \<open>x\<close> is a binary64 number
  when \<open>round64 x = x\<close>. Overflow to \<open>Infinity\<close> (a magnitude of \<open>2^1024\<close> or more) is
  not modelled; the values below stay within \<open>[-3, 3]\<close>.
\<close>

definition rne :: "real \<Rightarrow> int" where
  "rne q =
     (if q - of_int \<lfloor>q\<rfloor> < 1 / 2 then \<lfloor>q\<rfloor>
      else if 1 / 2 < q - of_int \<lfloor>q\<rfloor> then \<lfloor>q\<rfloor> + 1
      else if even \<lfloor>q\<rfloor> then \<lfloor>q\<rfloor> else \<lfloor>q\<rfloor> + 1)"

definition quantum :: "real \<Rightarrow> int" where
  "quantum x = max (\<lfloor>log 2 \<bar>x\<bar>\<rfloor> - 52) (- 1074)"

definition round64 :: "real \<Rightarrow> real" where
  "round64 x = (if x = 0 then 0 else of_int (rne (x / 2 powi quantum x)) * 2 powi quantum x)"

text \<open>The operators \<open>-\<close>, \<open>*\<close> and \<open>+\<close> on numbers, and the literal \<open>0.1\<close> of \<open>decayRate\<close>.\<close>

definition sub64 :: "real \<Rightarrow> real \<Rightarrow> real" where
  "sub64 x y = round64 (x - y)"

definition mul64 :: "real \<Rightarrow> real \<Rightarrow> real" where
  "mul64 x y = round64 (x * y)"

definition add64 :: "real \<Rightarrow> real \<Rightarrow> real" where
  "add64 x y = round64 (x + y)"

definition decayRate64 :: real where
  "decayRate64 = round64 decayRate"

section \<open>Decay in binary64\<close>

text \<open>\<open>decayPersonality\<close> with the operations of the language: \<open>0.5\<close> is a binary64 number.\<close>

definition decayPersonality64 :: "Personality \<Rightarrow> PersonalityUpdate" where
  "decayPersonality64 personality =
     \<lparr>traitUpdates =
        (\<lambda>n. case adaptiveTraits personality n of
                None \<Rightarrow> None
              | Some trait \<Rightarrow>
                  (case baseTraits personality n of
                     None \<Rightarrow> None
                   | Some baseTrait \<Rightarrow>
                       Some (mul64 (sub64 (trait_value baseTrait) (trait_value trait)) decayRate64))),
      moodUpdates =
        \<lparr>happiness_opt = Some (mul64 (sub64 0.5 (happiness (mood personality))) decayRate64),
         energy_opt = Some (mul64 (sub64 0.5 (energy (mood personality))) decayRate64),
         stress_opt = Some (mul64 (sub64 0.5 (stress (mood personality))) decayRate64),
         dominance_opt = Some (mul64 (sub64 0.5 (dominance (mood personality))) decayRate64)\<rparr>,
      relationshipUpdates = Map.empty\<rparr>"

text \<open>
  Modelled from the spec: the driver that applies a \<open>PersonalityUpdate\<close> is not among
  the sources. The spec has the caller apply a delta as an offset through the store:
  the delta is added to the current value and the sum is clamped into [0,1], as
  \<open>updateTrait\<close> and \<open>updateMood\<close> clamp the value they are passed
  (\<open>Math.max(0, Math.min(1, value))\<close>). The delta keyed by a trait name goes to the
  adaptive trait of that name, the delta of a mood field to that field; a trait or
  field with no delta keeps its value.
\<close>

definition applyOffsets64 :: "Personality \<Rightarrow> PersonalityUpdate \<Rightarrow> Personality" where
  "applyOffsets64 p u =
     p\<lparr>adaptiveTraits :=
         (\<lambda>n. case adaptiveTraits p n of
                 None \<Rightarrow> None
               | Some t \<Rightarrow>
                   (case traitUpdates u n of
                      None \<Rightarrow> Some t
                    | Some d \<Rightarrow> Some (t\<lparr>trait_value := max 0 (min 1 (add64 (trait_value t) d))\<rparr>))),
       mood :=
         \<lparr>happiness =
            (case happiness_opt (moodUpdates u) of
               None \<Rightarrow> happiness (mood p)
             | Some d \<Rightarrow> max 0 (min 1 (add64 (happiness (mood p)) d))),
          energy =
            (case energy_opt (moodUpdates u) of
               None \<Rightarrow> energy (mood p)
             | Some d \<Rightarrow> max 0 (min 1 (add64 (energy (mood p)) d))),
          stress =
            (case stress_opt (moodUpdates u) of
               None \<Rightarrow> stress (mood p)
             | Some d \<Rightarrow> max 0 (min 1 (add64 (stress (mood p)) d))),
          dominance =
            (case dominance_opt (moodUpdates u) of
               None \<Rightarrow> dominance (mood p)
             | Some d \<Rightarrow> max 0 (min 1 (add64 (dominance (mood p)) d)))\<rparr>\<rparr>"

definition decayStep64 :: "Personality \<Rightarrow> Personality" where
  "decayStep64 p = applyOffsets64 p (decayPersonality64 p)"

text \<open>A binary64 number in the declared range of a trait value or mood field.\<close>

definition double01 :: "real \<Rightarrow> bool" where
  "double01 x = (round64 x = x \<and> 0 \<le> x \<and> x \<le> 1)"

definition moodDouble01 :: "Mood \<Rightarrow> bool" where
  "moodDouble01 m =
     (double01 (happiness m) \<and> double01 (energy m) \<and> double01 (stress m) \<and> double01 (dominance m))"

text \<open>
  A value approaches its target: its distance to the target does not increase, it
  stays on the side of the target it was on, and the distance strictly decreases
  while it is at least \<open>2^-48\<close>.
\<close>

definition approaches :: "real \<Rightarrow> real \<Rightarrow> real \<Rightarrow> bool" where
  "approaches target old new =
     (\<bar>new - target\<bar> \<le> \<bar>old - target\<bar>
      \<and> (old \<le> target \<longrightarrow> old \<le> new \<and> new \<le> target)
      \<and> (target \<le> old \<longrightarrow> target \<le> new \<and> new \<le> old)
      \<and> (2 powi (- 48) \<le> \<bar>old - target\<bar> \<longrightarrow> \<bar>new - target\<bar> < \<bar>old - target\<bar>))"

text \<open>
  Three personalities: one whose happiness is the binary64 number
  0.5000000000000004, one whose trait values lie outside [0,1], and one whose values
  are binary64 numbers in [0,1].
\<close>

definition poised :: Personality where
  "poised =
     \<lparr>pid = ''poised'',
      baseTraits = Map.empty,
      adaptiveTraits = Map.empty,
      mood = \<lparr>happiness = 1 / 2 + 2 powi (- 51), energy = 1 / 2, stress = 1 / 2, dominance = 1 / 2\<rparr>,
      relationships = Map.empty\<rparr>"

definition restless :: Personality where
  "restless =
     \<lparr>pid = ''restless'',
      baseTraits = [''sociability'' \<mapsto> sociabilityTrait (5 / 2)],
      adaptiveTraits = [''sociability'' \<mapsto> sociabilityTrait 3],
      mood = \<lparr>happiness = 1 / 2, energy = 1 / 2, stress = 1 / 2, dominance = 1 / 2\<rparr>,
      relationships = Map.empty\<rparr>"

definition carol :: Personality where
  "carol =
     \<lparr>pid = ''carol'',
      baseTraits = [''sociability'' \<mapsto> sociabilityTrait (3 / 4)],
      adaptiveTraits = [''sociability'' \<mapsto> sociabilityTrait (1 / 4)],
      mood = \<lparr>happiness = 3 / 4, energy = 1 / 2, stress = 1 / 4, dominance = 1\<rparr>,
      relationships = Map.empty\<rparr>"

section \<open>Declared ranges\<close>

text \<open>
  The ranges the interfaces document: a trait value and a mood field from 0 to 1, a
  relationship strength from -1 to 1, a connection value from -1 to 1, trust and
  familiarity from 0 to 1.
\<close>

definition inUnit :: "real \<Rightarrow> bool" where
  "inUnit x = (0 \<le> x \<and> x \<le> 1)"

definition connectionInRange :: "ConnectionStrength \<Rightarrow> bool" where
  "connectionInRange c =
     (- 1 \<le> strength_value c \<and> strength_value c \<le> 1 \<and> inUnit (trust c) \<and> inUnit (familiarity c))"

section \<open>processEvent\<close>

text \<open>
  C5. For a personality whose id is not X, the social-interaction event of intensity 1
  and valence 0.6 from X gives the trait delta 0.03 for sociability and, for X, the
  relationship value that is the current one (0 when absent) plus 0.6 * 1 * 0.05,
  clamped into [-1, 1].
\<close>

theorem processEvent_socialInteraction:
  assumes "pid personality \<noteq> ''X''"
  shows "traitUpdates (fst (processEvent up personality (socialEventX ctx))) ''sociability'' = Some 0.03
       \<and> relationshipUpdates (fst (processEvent up personality (socialEventX ctx))) ''X'' =
           Some (max (- 1) (min 1 ((case relationships personality ''X'' of None \<Rightarrow> 0 | Some r \<Rightarrow> r)
                                    + 0.6 * 1 * 0.05)))"
  using assms
  by (simp add: processEvent_def calculateTraitUpdates_def calculateRelationshipUpdates_def
      socialEventX_def adaptationRate_def Let_def)

theorem processEvent_socialInteraction_witness:
  "pid alice \<noteq> ''X''
   \<and> traitUpdates (fst (processEvent new_PersonalityUpdater alice (socialEventX None))) ''sociability''
       = Some 0.03
   \<and> relationshipUpdates (fst (processEvent new_PersonalityUpdater alice (socialEventX None))) ''X''
       = Some 0.03"
proof -
  have ne: "pid alice \<noteq> ''X''"
    by (simp add: alice_def)
  show ?thesis
    using ne processEvent_socialInteraction [OF ne, of new_PersonalityUpdater None]
    by (simp add: alice_def)
qed

text \<open>
  C6. The mood part of processEvent: happiness is valence * intensity; energy is
  intensity * 1 for a positive valence and intensity * (-0.5) otherwise; stress is
  intensity * 1 for a negative valence and intensity * (-0.5) otherwise; for the type
  conflict, and for no other, stress becomes min(1, stress + 0.2) and dominance is 0.1
  for a positive valence and -0.1 otherwise; for every other type dominance is absent.
\<close>

theorem processEvent_moodUpdates:
  "moodUpdates (fst (processEvent up personality event)) =
     (let s = (if valence event < 0 then intensity event * 1 else intensity event * (- 0.5))
      in \<lparr>happiness_opt = Some (valence event * intensity event),
          energy_opt = Some (if valence event > 0 then intensity event * 1 else intensity event * (- 0.5)),
          stress_opt = Some (if event_type event = ''conflict'' then min 1 (s + 0.2) else s),
          dominance_opt = (if event_type event = ''conflict''
                           then Some (if valence event > 0 then 0.1 else - 0.1) else None)\<rparr>)"
  by (simp add: processEvent_def calculateMoodUpdates_def Let_def)

theorem processEvent_moodUpdates_witness:
  "moodUpdates (fst (processEvent new_PersonalityUpdater alice (eventOf ''conflict'' 2 (- 0.5)))) =
     \<lparr>happiness_opt = Some (- 1), energy_opt = Some (- 1), stress_opt = Some 1,
      dominance_opt = Some (- 0.1)\<rparr>
   \<and> moodUpdates (fst (processEvent new_PersonalityUpdater alice (eventOf ''learning'' 0.5 0.4))) =
     \<lparr>happiness_opt = Some 0.2, energy_opt = Some 0.5, stress_opt = Some (- 0.25),
      dominance_opt = None\<rparr>"
  using processEvent_moodUpdates [of new_PersonalityUpdater alice "eventOf ''conflict'' 2 (- 0.5)"]
    processEvent_moodUpdates [of new_PersonalityUpdater alice "eventOf ''learning'' 0.5 0.4"]
  by (simp add: eventOf_def)

section \<open>getEmotionalMemory\<close>

lemma slice_from_tail:
  "0 < l \<Longrightarrow> slice_from (- l) xs = drop (length xs - nat l) xs"
  by (auto simp: slice_from_def Let_def max_def nat_diff_distrib'
      intro: arg_cong [where f = "\<lambda>k. drop k xs"])

lemma memoryOf_processEvent:
  "memoryOf (snd (processEvent up p e)) (pid p) = memoryOf up (pid p) @ [e]"
  by (simp add: processEvent_def memoryOf_def Let_def)

lemma getEmotionalMemory_None: "getEmotionalMemory up i None = memoryOf up i"
  by (simp add: getEmotionalMemory_def memoryOf_def)

lemma getEmotionalMemory_pos:
  "0 < l \<Longrightarrow>
   getEmotionalMemory up i (Some l) = drop (length (memoryOf up i) - nat l) (memoryOf up i)"
  by (simp add: getEmotionalMemory_def memoryOf_def slice_from_tail Let_def)

text \<open>
  C7, as the claim states it, fails for the limit 0: the limit is given, the most recent
  0 entries are no entries, and the call returns the whole log of three events.
\<close>

theorem getEmotionalMemory_zero_limit:
  "getEmotionalMemory
     (snd (processEvent
        (snd (processEvent
           (snd (processEvent new_PersonalityUpdater alice (eventOf ''a'' 1 1)))
           alice (eventOf ''b'' 1 1)))
        alice (eventOf ''c'' 1 1)))
     ''alice'' (Some 0)
   = [eventOf ''a'' 1 1, eventOf ''b'' 1 1, eventOf ''c'' 1 1]"
  by (simp add: getEmotionalMemory_def processEvent_def new_PersonalityUpdater_def alice_def Let_def)

text \<open>
  C7, amended. With no limit, and with the limit 0, getEmotionalMemory returns the full
  log, which processEvent extends at its end; with a positive limit it returns the last
  limit entries of the log in insertion order (the whole log when it is shorter); after
  the events a, b, c the limit 2 gives b, c.
\<close>

theorem getEmotionalMemory_tail:
  "getEmotionalMemory up i None = memoryOf up i
   \<and> getEmotionalMemory up i (Some 0) = memoryOf up i
   \<and> (0 < l \<longrightarrow>
        getEmotionalMemory up i (Some l) = drop (length (memoryOf up i) - nat l) (memoryOf up i))
   \<and> memoryOf (snd (processEvent up p a)) (pid p) = memoryOf up (pid p) @ [a]
   \<and> getEmotionalMemory
        (snd (processEvent (snd (processEvent (snd (processEvent up p a)) p b)) p c)) (pid p) (Some 2)
      = [b, c]"
proof -
  have "getEmotionalMemory
        (snd (processEvent (snd (processEvent (snd (processEvent up p a)) p b)) p c)) (pid p) (Some 2)
      = [b, c]"
    by (simp add: getEmotionalMemory_pos memoryOf_processEvent)
  moreover have "getEmotionalMemory up i (Some 0) = memoryOf up i"
    by (simp add: getEmotionalMemory_def memoryOf_def)
  ultimately show ?thesis
    by (simp add: getEmotionalMemory_None getEmotionalMemory_pos memoryOf_processEvent)
qed

theorem getEmotionalMemory_tail_witness:
  "(0::int) < 1
   \<and> getEmotionalMemory
        (snd (processEvent (snd (processEvent new_PersonalityUpdater alice (eventOf ''a'' 1 1)))
           alice (eventOf ''b'' 1 1)))
        ''alice'' (Some 1)
      = [eventOf ''b'' 1 1]
   \<and> getEmotionalMemory
        (snd (processEvent
           (snd (processEvent
              (snd (processEvent new_PersonalityUpdater alice (eventOf ''a'' 1 1)))
              alice (eventOf ''b'' 1 1)))
           alice (eventOf ''c'' 1 1)))
        ''alice'' (Some 2)
      = [eventOf ''b'' 1 1, eventOf ''c'' 1 1]"
proof -
  let ?up2 = "snd (processEvent (snd (processEvent new_PersonalityUpdater alice (eventOf ''a'' 1 1)))
           alice (eventOf ''b'' 1 1))"
  have pos: "(0::int) < 1"
    by simp
  have log: "memoryOf ?up2 ''alice'' = [eventOf ''a'' 1 1, eventOf ''b'' 1 1]"
    by (simp add: memoryOf_def processEvent_def new_PersonalityUpdater_def alice_def Let_def)
  have id: "pid alice = ''alice''"
    by (simp add: alice_def)
  from getEmotionalMemory_tail [of ?up2 "''alice''" 1, THEN conjunct2, THEN conjunct2, THEN conjunct1] pos
  have one: "getEmotionalMemory ?up2 ''alice'' (Some 1) = [eventOf ''b'' 1 1]"
    by (simp add: log)
  from getEmotionalMemory_tail [of new_PersonalityUpdater "''alice''" 1 alice
      "eventOf ''a'' 1 1" "eventOf ''b'' 1 1" "eventOf ''c'' 1 1"]
  have two: "getEmotionalMemory
        (snd (processEvent
           (snd (processEvent
              (snd (processEvent new_PersonalityUpdater alice (eventOf ''a'' 1 1)))
              alice (eventOf ''b'' 1 1)))
           alice (eventOf ''c'' 1 1)))
        ''alice'' (Some 2)
      = [eventOf ''b'' 1 1, eventOf ''c'' 1 1]"
    by (simp add: id)
  from pos one two show ?thesis
    by simp
qed

section \<open>disconnect and recordInteraction without a connection\<close>

text \<open>
  C10. disconnect emits the notification disconnected whether or not the connection
  exists, and when there is no connection from the source to the target it leaves the
  connection map as it was.
\<close>

theorem disconnect_emits:
  "emitted (disconnect cm src tgt) = emitted cm @ [Disconnected src tgt]
   \<and> (getConnection cm src tgt = None \<longrightarrow> connections (disconnect cm src tgt) = connections cm)"
  by (auto simp: disconnect_def getConnection_def Let_def fun_upd_idem split: option.splits)

theorem disconnect_emits_witness:
  "getConnection new_ConnectionManager ''a'' ''b'' = None
   \<and> emitted (disconnect new_ConnectionManager ''a'' ''b'') = [Disconnected ''a'' ''b'']
   \<and> connections (disconnect new_ConnectionManager ''a'' ''b'') = Map.empty"
proof -
  have none: "getConnection new_ConnectionManager ''a'' ''b'' = None"
    by (simp add: getConnection_def new_ConnectionManager_def initializeDefaultRules_def addRule_def)
  from disconnect_emits [of new_ConnectionManager "''a''" "''b''"] none show ?thesis
    by (simp add: new_ConnectionManager_def initializeDefaultRules_def addRule_def)
qed

text \<open>
  C8. When the source and target of an interaction have no connection, recordInteraction
  appends the interaction to the history of the pair and changes nothing else: the
  connection map is the same, getConnection still returns nothing, no notification is
  emitted. The function has no failing branch.
\<close>

theorem recordInteraction_without_connection:
  assumes "getConnection cm (sourceId i) (targetId i) = None"
  shows "interactionHistory (recordInteraction cm i) (historyKey i) =
           Some ((case interactionHistory cm (historyKey i) of None \<Rightarrow> [] | Some h \<Rightarrow> h) @ [i])
       \<and> connections (recordInteraction cm i) = connections cm
       \<and> getConnection (recordInteraction cm i) (sourceId i) (targetId i) = None
       \<and> emitted (recordInteraction cm i) = emitted cm
       \<and> recordInteraction cm i =
           cm\<lparr>interactionHistory := (interactionHistory cm)(historyKey i \<mapsto>
                 (case interactionHistory cm (historyKey i) of None \<Rightarrow> [] | Some h \<Rightarrow> h) @ [i])\<rparr>"
  using assms
  by (simp add: recordInteraction_def getConnection_def Let_def split: option.splits)

theorem recordInteraction_without_connection_witness:
  "getConnection new_ConnectionManager ''a'' ''b'' = None
   \<and> interactionHistory (recordInteraction new_ConnectionManager (interactionOf 0.1 0.1 0.1)) ''a-b''
       = Some [interactionOf 0.1 0.1 0.1]
   \<and> getConnection (recordInteraction new_ConnectionManager (interactionOf 0.1 0.1 0.1)) ''a'' ''b''
       = None"
proof -
  have none: "getConnection new_ConnectionManager
      (sourceId (interactionOf 0.1 0.1 0.1)) (targetId (interactionOf 0.1 0.1 0.1)) = None"
    by (simp add: getConnection_def new_ConnectionManager_def initializeDefaultRules_def addRule_def)
  note r = recordInteraction_without_connection [OF none]
  from r [THEN conjunct1] have hist:
    "interactionHistory (recordInteraction new_ConnectionManager (interactionOf 0.1 0.1 0.1)) ''a-b''
       = Some [interactionOf 0.1 0.1 0.1]"
    by (simp add: interactionOf_def historyKey_def new_ConnectionManager_def
        initializeDefaultRules_def addRule_def del: One_nat_def)
  from r [THEN conjunct2, THEN conjunct2, THEN conjunct1] have conn:
    "getConnection (recordInteraction new_ConnectionManager (interactionOf 0.1 0.1 0.1)) ''a'' ''b''
       = None"
    by (simp add: interactionOf_def)
  from none hist conn show ?thesis
    by (simp add: interactionOf_def)
qed

section \<open>decayPersonality\<close>

text \<open>
  C2, as the claim states it, fails for an adaptive trait with no base trait of its
  name: decayPersonality skips it, and the trait updates hold no delta for it.
\<close>

theorem decayPersonality_skips_trait_without_base:
  "adaptiveTraits drifter ''focus'' \<noteq> None
   \<and> baseTraits drifter ''focus'' = None
   \<and> traitUpdates (decayPersonality drifter) ''focus'' = None"
  by (simp add: drifter_def decayPersonality_def)

text \<open>
  C2, amended. The trait updates of decayPersonality hold, for every adaptive trait
  that has a base trait of the same name, the delta (base value - adaptive value) * 0.1,
  and no entry for any other name; the mood updates hold, for each of the four mood
  fields, the delta (0.5 - current value) * 0.1; the relationship updates are empty.
\<close>

theorem decayPersonality_deltas:
  "(\<forall>n trait. adaptiveTraits p n = Some trait \<longrightarrow>
      traitUpdates (decayPersonality p) n =
        (case baseTraits p n of
           None \<Rightarrow> None
         | Some baseTrait \<Rightarrow> Some ((trait_value baseTrait - trait_value trait) * 0.1)))
   \<and> (\<forall>n. adaptiveTraits p n = None \<longrightarrow> traitUpdates (decayPersonality p) n = None)
   \<and> moodUpdates (decayPersonality p) =
        \<lparr>happiness_opt = Some ((0.5 - happiness (mood p)) * 0.1),
         energy_opt = Some ((0.5 - energy (mood p)) * 0.1),
         stress_opt = Some ((0.5 - stress (mood p)) * 0.1),
         dominance_opt = Some ((0.5 - dominance (mood p)) * 0.1)\<rparr>
   \<and> relationshipUpdates (decayPersonality p) = Map.empty"
  by (simp add: decayPersonality_def decayRate_def split: option.splits)

theorem decayPersonality_deltas_witness:
  "adaptiveTraits alice ''sociability'' = Some (sociabilityTrait 0.4)
   \<and> traitUpdates (decayPersonality alice) ''sociability'' = Some 0.05
   \<and> adaptiveTraits alice ''focus'' = None
   \<and> traitUpdates (decayPersonality alice) ''focus'' = None
   \<and> happiness_opt (moodUpdates (decayPersonality alice)) = Some (- 0.02)"
proof -
  note d = decayPersonality_deltas [of alice]
  have a: "adaptiveTraits alice ''sociability'' = Some (sociabilityTrait 0.4)"
    by (simp add: alice_def)
  have b: "baseTraits alice ''sociability'' = Some (sociabilityTrait 0.9)"
    by (simp add: alice_def)
  have f: "adaptiveTraits alice ''focus'' = None"
    by (simp add: alice_def)
  from d [THEN conjunct1, rule_format, OF a]
  have t: "traitUpdates (decayPersonality alice) ''sociability'' = Some 0.05"
    by (simp add: b sociabilityTrait_def)
  from d [THEN conjunct2, THEN conjunct1, rule_format, OF f]
  have u: "traitUpdates (decayPersonality alice) ''focus'' = None" .
  from d [THEN conjunct2, THEN conjunct2, THEN conjunct1]
  have m: "happiness_opt (moodUpdates (decayPersonality alice)) = Some (- 0.02)"
    by (simp add: alice_def)
  from a t f u m show ?thesis
    by simp
qed

section \<open>Rounding to binary64\<close>

text \<open>
  Rounding is odd, leaves a binary64 number as it is, gives a binary64 number, and
  never crosses a binary64 number: what lies below one is rounded to at most it.
\<close>

lemma rne_of_int: "rne (of_int k) = k"
  by (simp add: rne_def)

lemma rne_le: "q \<le> of_int k \<Longrightarrow> rne q \<le> k"
proof -
  assume a: "q \<le> of_int k"
  show ?thesis
  proof (cases "q = of_int k")
    case True
    then show ?thesis by (simp add: rne_of_int)
  next
    case False
    with a have "q < of_int k" by simp
    then have "\<lfloor>q\<rfloor> < k" by (simp add: floor_less_iff)
    then show ?thesis by (simp add: rne_def)
  qed
qed

lemma rne_ge: "of_int k \<le> q \<Longrightarrow> k \<le> rne q"
proof -
  assume "of_int k \<le> q"
  then have "k \<le> \<lfloor>q\<rfloor>" by (simp add: le_floor_iff)
  then show ?thesis by (simp add: rne_def)
qed

lemma rne_near: "\<bar>q - of_int n\<bar> < 1 / 2 \<Longrightarrow> rne q = n"
proof -
  assume a: "\<bar>q - of_int n\<bar> < 1 / 2"
  show ?thesis
  proof (cases "of_int n \<le> q")
    case True
    with a have "\<lfloor>q\<rfloor> = n" by (intro floor_unique) (auto simp: abs_if split: if_splits)
    with a True show ?thesis by (simp add: rne_def abs_if split: if_splits)
  next
    case False
    with a have f: "\<lfloor>q\<rfloor> = n - 1" by (intro floor_unique) (auto simp: abs_if split: if_splits)
    from a False have "1 / 2 < q - of_int (n - 1)" by (auto simp: abs_if split: if_splits)
    with f show ?thesis by (simp add: rne_def)
  qed
qed

lemma rne_minus: "rne (- q) = - rne q"
proof (cases "q = of_int \<lfloor>q\<rfloor>")
  case True
  then obtain k where "q = of_int k" ..
  then show ?thesis by (simp add: rne_of_int flip: of_int_minus)
next
  case False
  have "of_int \<lfloor>q\<rfloor> \<le> q" by (rule of_int_floor_le)
  with False have lt: "of_int \<lfloor>q\<rfloor> < q" by (metis less_le)
  have up: "q < of_int \<lfloor>q\<rfloor> + 1"
    by linarith
  have f: "\<lfloor>- q\<rfloor> = - \<lfloor>q\<rfloor> - 1"
  proof (rule floor_unique)
    have e: "of_int (- \<lfloor>q\<rfloor> - 1) = - of_int \<lfloor>q\<rfloor> - (1::real)"
      by simp
    from up show "of_int (- \<lfloor>q\<rfloor> - 1) \<le> - q"
      unfolding e by linarith
    from lt show "- q < of_int (- \<lfloor>q\<rfloor> - 1) + 1"
      unfolding e by linarith
  qed
  show ?thesis
    unfolding rne_def f using lt by (auto simp: algebra_simps)
qed


lemma quantum_ge: "- 1074 \<le> quantum x"
  by (simp add: quantum_def)

lemma quantum_minus: "quantum (- x) = quantum x"
  by (simp add: quantum_def)

lemma floor_log2_bounds:
  assumes "x \<noteq> 0"
  shows "2 powi \<lfloor>log 2 \<bar>x\<bar>\<rfloor> \<le> \<bar>x\<bar>" and "\<bar>x\<bar> < 2 powi (\<lfloor>log 2 \<bar>x\<bar>\<rfloor> + 1)"
proof -
  from assms have pos: "0 < \<bar>x\<bar>" by simp
  have b: "2 powr real_of_int \<lfloor>log 2 \<bar>x\<bar>\<rfloor> \<le> \<bar>x\<bar>
      \<and> \<bar>x\<bar> < 2 powr (real_of_int \<lfloor>log 2 \<bar>x\<bar>\<rfloor> + 1)"
    using floor_log_eq_powr_iff [OF pos, of 2 "\<lfloor>log 2 \<bar>x\<bar>\<rfloor>"] by simp
  have p: "\<And>k. (2::real) powr real_of_int k = 2 powi k"
    by (simp add: powr_real_of_int')
  from b show "2 powi \<lfloor>log 2 \<bar>x\<bar>\<rfloor> \<le> \<bar>x\<bar>"
    by (simp add: p)
  from b have "\<bar>x\<bar> < 2 powr real_of_int (\<lfloor>log 2 \<bar>x\<bar>\<rfloor> + 1)"
    by simp
  then show "\<bar>x\<bar> < 2 powi (\<lfloor>log 2 \<bar>x\<bar>\<rfloor> + 1)"
    by (simp only: p)
qed

lemma quantum_upper:
  assumes "x \<noteq> 0"
  shows "\<bar>x\<bar> < 2 powi (quantum x + 53)"
proof -
  have "\<bar>x\<bar> < 2 powi (\<lfloor>log 2 \<bar>x\<bar>\<rfloor> + 1)"
    by (rule floor_log2_bounds [OF assms])
  also have "\<dots> \<le> 2 powi (quantum x + 53)"
    by (rule power_int_increasing) (simp_all add: quantum_def)
  finally show ?thesis .
qed

lemma quantum_lower:
  assumes "x \<noteq> 0" and "- 1074 < quantum x"
  shows "2 powi (quantum x + 52) \<le> \<bar>x\<bar>"
proof -
  from assms(2) have "quantum x = \<lfloor>log 2 \<bar>x\<bar>\<rfloor> - 52"
    by (simp add: quantum_def max_def split: if_splits)
  then have "quantum x + 52 = \<lfloor>log 2 \<bar>x\<bar>\<rfloor>"
    by simp
  with floor_log2_bounds(1) [OF assms(1)] show ?thesis
    by simp
qed

lemma quantum_eq:
  assumes "2 powi (e + 52) \<le> \<bar>x\<bar>" and "\<bar>x\<bar> < 2 powi (e + 53)" and "- 1074 \<le> e"
  shows "quantum x = e"
proof -
  have "(0::real) < 2 powi (e + 52)"
    by simp
  with assms(1) have pos: "0 < \<bar>x\<bar>"
    by linarith
  have p: "\<And>k. (2::real) powr real_of_int k = 2 powi k"
    by (simp add: powr_real_of_int')
  have "2 powr real_of_int (e + 52) \<le> \<bar>x\<bar>"
    using assms(1) by (simp only: p)
  moreover have "\<bar>x\<bar> < 2 powr (real_of_int (e + 52) + 1)"
  proof -
    have "real_of_int (e + 52) + 1 = real_of_int (e + 53)" by simp
    with assms(2) show ?thesis by (simp only: p)
  qed
  ultimately have "\<lfloor>log 2 \<bar>x\<bar>\<rfloor> = e + 52"
    using floor_log_eq_powr_iff [OF pos, of 2 "e + 52"] by simp
  with assms(3) show ?thesis
    by (simp add: quantum_def)
qed

lemma round64_near:
  assumes "2 powi (e + 52) \<le> \<bar>x\<bar>" and "\<bar>x\<bar> < 2 powi (e + 53)" and "- 1074 \<le> e"
    and "\<bar>x / 2 powi e - of_int n\<bar> < 1 / 2"
  shows "round64 x = of_int n * 2 powi e"
proof -
  have "(0::real) < 2 powi (e + 52)"
    by simp
  with assms(1) have "0 < \<bar>x\<bar>"
    by linarith
  then have "x \<noteq> 0"
    by simp
  then show ?thesis
    by (simp add: round64_def quantum_eq [OF assms(1-3)] rne_near [OF assms(4)])
qed

lemma round64_rep:
  assumes "\<bar>m\<bar> < 2 ^ 53" and "- 1074 \<le> e"
  shows "round64 (of_int m * 2 powi e) = of_int m * 2 powi e"
proof (cases "m = 0")
  case True
  then show ?thesis by (simp add: round64_def)
next
  case False
  define x where "x = real_of_int m * 2 powi e"
  have x0: "x \<noteq> 0"
    using False by (simp add: x_def)
  have ax: "\<bar>x\<bar> = real_of_int \<bar>m\<bar> * 2 powi e"
    by (simp add: x_def abs_mult)
  have le: "quantum x \<le> e"
  proof (rule ccontr)
    assume "\<not> quantum x \<le> e"
    then have gt: "e < quantum x" by simp
    with assms(2) have "- 1074 < quantum x" by simp
    from quantum_lower [OF x0 this] have "2 powi (quantum x + 52) \<le> \<bar>x\<bar>" .
    moreover have "\<bar>x\<bar> < 2 powi (e + 53)"
    proof -
      from assms(1) have "real_of_int \<bar>m\<bar> < 2 ^ 53"
        by (metis of_int_less_numeral_power_cancel_iff)
      then have "real_of_int \<bar>m\<bar> * 2 powi e < 2 ^ 53 * 2 powi e"
        by (simp add: )
      also have "\<dots> = 2 powi (e + 53)"
        by (simp add: power_int_add)
      finally show ?thesis by (simp add: ax)
    qed
    moreover have "(2::real) powi (e + 53) \<le> 2 powi (quantum x + 52)"
      by (rule power_int_increasing) (use gt in simp_all)
    ultimately show False by linarith
  qed
  define d where "d = nat (e - quantum x)"
  have e: "e = quantum x + int d"
    using le by (simp add: d_def)
  have "(2::real) powi e = 2 powi (quantum x + int d)"
    using e by simp
  then have pe: "(2::real) powi e = 2 powi quantum x * 2 ^ d"
    by (simp add: power_int_add)
  have "x = real_of_int m * 2 powi e"
    by (rule x_def)
  also have "\<dots> = real_of_int m * (2 powi quantum x * 2 ^ d)"
    by (rule arg_cong [where f = "\<lambda>t. real_of_int m * t", OF pe])
  also have "\<dots> = real_of_int (m * 2 ^ d) * 2 powi quantum x"
    by simp
  finally have xq: "x = real_of_int (m * 2 ^ d) * 2 powi quantum x" .
  then have "x / 2 powi quantum x = real_of_int (m * 2 ^ d) * 2 powi quantum x / 2 powi quantum x"
    by simp
  then have q: "x / 2 powi quantum x = real_of_int (m * 2 ^ d)"
    by simp
  have "round64 x = real_of_int (m * 2 ^ d) * 2 powi quantum x"
    using x0 by (simp only: round64_def q rne_of_int if_False)
  with xq have "round64 x = x"
    by simp
  then show ?thesis
    by (simp only: x_def)
qed


lemma round64_zero: "round64 0 = 0"
  by (simp add: round64_def)

lemma round64_minus: "round64 (- x) = - round64 x"
  by (simp add: round64_def quantum_minus rne_minus)

lemma round64_scaled:
  assumes "x \<noteq> 0"
  shows "\<bar>x / 2 powi quantum x\<bar> < 2 ^ 53"
proof -
  have "\<bar>x\<bar> < 2 powi (quantum x + 53)"
    by (rule quantum_upper [OF assms])
  also have "\<dots> = 2 powi quantum x * 2 ^ 53"
    by (simp add: power_int_add)
  finally have "\<bar>x\<bar> / 2 powi quantum x < 2 ^ 53"
    by (simp add: pos_divide_less_eq mult.commute)
  then show ?thesis
    by (simp add: abs_divide)
qed

lemma round64_fixed_rep:
  assumes "round64 x = x"
  shows "\<exists>m e. \<bar>m\<bar> < 2 ^ 53 \<and> - 1074 \<le> e \<and> x = real_of_int m * 2 powi e"
proof (cases "x = 0")
  case True
  have "\<bar>0::int\<bar> < 2 ^ 53 \<and> - 1074 \<le> (0::int) \<and> x = real_of_int 0 * 2 powi 0"
    using True by simp
  then show ?thesis by blast
next
  case False
  define n where "n = rne (x / 2 powi quantum x)"
  from assms False have x: "x = real_of_int n * 2 powi quantum x"
    by (simp add: round64_def n_def)
  then have "x / 2 powi quantum x = real_of_int n * 2 powi quantum x / 2 powi quantum x"
    by simp
  then have "x / 2 powi quantum x = real_of_int n"
    by simp
  with round64_scaled [OF False] have "\<bar>real_of_int n\<bar> < 2 ^ 53"
    by simp
  then have "\<bar>n\<bar> < 2 ^ 53"
    by (metis of_int_abs of_int_less_numeral_power_cancel_iff)
  with x quantum_ge [of x] show ?thesis
    by blast
qed

lemma round64_idem: "round64 (round64 x) = round64 x"
proof (cases "x = 0")
  case True
  then show ?thesis by (simp add: round64_def)
next
  case False
  define n where "n = rne (x / 2 powi quantum x)"
  have r: "round64 x = real_of_int n * 2 powi quantum x"
    using False by (simp add: round64_def n_def)
  from round64_scaled [OF False]
  have u: "x / 2 powi quantum x \<le> real_of_int (2 ^ 53)"
    and l: "real_of_int (- (2 ^ 53)) \<le> x / 2 powi quantum x"
    by (simp_all add: abs_if split: if_splits)
  have b: "n \<le> 2 ^ 53" "- (2 ^ 53) \<le> n"
    unfolding n_def by (rule rne_le [OF u], rule rne_ge [OF l])
  consider "\<bar>n\<bar> < 2 ^ 53" | "n = 2 ^ 53" | "n = - (2 ^ 53)"
    using b by linarith
  then show ?thesis
  proof cases
    case 1
    from round64_rep [OF 1 quantum_ge [of x]] show ?thesis
      by (simp only: r)
  next
    case 2
    have "real_of_int n * 2 powi quantum x = real_of_int (2 ^ 52) * 2 powi (quantum x + 1)"
      by (simp add: 2 power_int_add)
    moreover have "round64 (real_of_int (2 ^ 52) * 2 powi (quantum x + 1))
        = real_of_int (2 ^ 52) * 2 powi (quantum x + 1)"
      by (rule round64_rep) (use quantum_ge [of x] in simp_all)
    ultimately show ?thesis
      by (simp only: r)
  next
    case 3
    have "real_of_int n * 2 powi quantum x = real_of_int (- (2 ^ 52)) * 2 powi (quantum x + 1)"
      by (simp add: 3 power_int_add)
    moreover have "round64 (real_of_int (- (2 ^ 52)) * 2 powi (quantum x + 1))
        = real_of_int (- (2 ^ 52)) * 2 powi (quantum x + 1)"
      by (rule round64_rep) (use quantum_ge [of x] in simp_all)
    ultimately show ?thesis
      by (simp only: r)
  qed
qed

lemma round64_le:
  assumes "round64 r = r" and "x \<le> r"
  shows "round64 x \<le> r"
proof (cases "x = 0")
  case True
  with assms(2) show ?thesis by (simp add: round64_def)
next
  case False
  from round64_fixed_rep [OF assms(1)]
  obtain m e where m: "\<bar>m\<bar> < 2 ^ 53" and e: "- 1074 \<le> e" and r: "r = real_of_int m * 2 powi e"
    by blast
  define P where "P = (2::real) powi quantum x"
  have P: "0 < P"
    by (simp add: P_def)
  define n where "n = rne (x / P)"
  have rx: "round64 x = real_of_int n * P"
    using False by (simp add: round64_def n_def P_def)
  show ?thesis
  proof (cases "quantum x \<le> e")
    case True
    define d where "d = nat (e - quantum x)"
    have "e = quantum x + int d"
      using True by (simp add: d_def)
    then have "(2::real) powi e = 2 powi (quantum x + int d)"
      by simp
    then have pe: "(2::real) powi e = P * 2 ^ d"
      by (simp add: power_int_add P_def)
    have rk: "r = real_of_int (m * 2 ^ d) * P"
      by (simp add: r pe)
    from assms(2) P have "x / P \<le> r / P"
      by (simp add: divide_right_mono)
    also have "r / P = real_of_int (m * 2 ^ d)"
      using P by (simp add: rk)
    finally have "n \<le> m * 2 ^ d"
      unfolding n_def by (rule rne_le)
    then have h: "real_of_int n \<le> real_of_int (m * 2 ^ d)"
      by (simp only: of_int_le_iff)
    have "real_of_int n * P \<le> real_of_int (m * 2 ^ d) * P"
      by (rule mult_right_mono [OF h less_imp_le [OF P]])
    then show ?thesis
      by (simp only: rx rk)
  next
    case False
    then have gt: "e < quantum x" by simp
    with e have "- 1074 < quantum x" by simp
    from quantum_lower [OF \<open>x \<noteq> 0\<close> this] have lo: "2 powi (quantum x + 52) \<le> \<bar>x\<bar>" .
    have "\<bar>r\<bar> = real_of_int \<bar>m\<bar> * 2 powi e"
      by (simp add: r abs_mult)
    moreover from m have "real_of_int \<bar>m\<bar> < 2 ^ 53"
      by (metis of_int_less_numeral_power_cancel_iff)
    ultimately have "\<bar>r\<bar> < 2 ^ 53 * 2 powi e"
      by simp
    also have "\<dots> = 2 powi (e + 53)"
      by (simp add: power_int_add)
    also have "\<dots> \<le> 2 powi (quantum x + 52)"
      by (rule power_int_increasing) (use gt in simp_all)
    finally have rlt: "\<bar>r\<bar> < 2 powi (quantum x + 52)" .
    have P52: "(2::real) powi (quantum x + 52) = 2 ^ 52 * P"
      by (simp add: power_int_add P_def)
    from lo rlt assms(2) have xneg: "x \<le> - (2 ^ 52 * P)"
      unfolding P52 by (simp add: abs_if split: if_splits)
    with P have "x / P \<le> - (2 ^ 52)"
      by (simp add: pos_divide_le_eq)
    then have "x / P \<le> real_of_int (- (2 ^ 52))"
      by simp
    then have "n \<le> - (2 ^ 52)"
      unfolding n_def by (rule rne_le)
    then have h: "real_of_int n \<le> real_of_int (- (2 ^ 52))"
      by (simp only: of_int_le_iff)
    have "real_of_int n * P \<le> real_of_int (- (2 ^ 52)) * P"
      by (rule mult_right_mono [OF h less_imp_le [OF P]])
    also have "\<dots> = - (2 ^ 52 * P)"
      by simp
    also from rlt have "\<dots> < r"
      unfolding P52 by (simp add: abs_if split: if_splits)
    finally show ?thesis
      by (simp only: rx)
  qed
qed

lemma round64_fixed_minus: "round64 r = r \<Longrightarrow> round64 (- r) = - r"
  by (simp add: round64_minus)

lemma round64_ge:
  assumes "round64 r = r" and "r \<le> x"
  shows "r \<le> round64 x"
proof -
  from assms(2) have "- x \<le> - r" by simp
  from round64_le [OF round64_fixed_minus [OF assms(1)] this] show ?thesis
    by (simp add: round64_minus)
qed


section \<open>One decay step on a value\<close>

lemma decayRate64_value: "decayRate64 = 3602879701896397 / 2 ^ 55"
proof -
  have "round64 (1 / 10) = real_of_int 7205759403792794 * 2 powi (- 56)"
    by (rule round64_near) (simp_all add: power_int_minus)
  then show ?thesis
    by (simp add: decayRate64_def decayRate_def power_int_minus)
qed

lemma decayRate64_bounds: "1 / 16 \<le> decayRate64" "decayRate64 \<le> 1 / 2" "0 < decayRate64"
  by (simp_all add: decayRate64_value)

lemma round64_power2: "- 1074 \<le> e \<Longrightarrow> round64 (2 powi e) = 2 powi e"
  using round64_rep [of 1 e] by simp

lemma round64_one: "round64 1 = 1"
  using round64_power2 [of 0] by simp

lemma rep_diff:
  assumes m: "\<bar>m\<bar> < 2 ^ 53" and e: "- 1074 \<le> e" and u: "u = real_of_int m * 2 powi e"
    and v: "v = real_of_int m' * 2 powi e'" and le: "e \<le> e'" and small: "\<bar>u - v\<bar> \<le> \<bar>u\<bar>"
  shows "round64 (u - v) = u - v"
proof -
  define d where "d = nat (e' - e)"
  define P where "P = (2::real) powi e"
  have P: "0 < P"
    by (simp add: P_def)
  have "e' = e + int d"
    using le by (simp add: d_def)
  then have "(2::real) powi e' = 2 powi (e + int d)"
    by simp
  then have pe: "(2::real) powi e' = P * 2 ^ d"
    by (simp add: power_int_add P_def)
  define k where "k = m - m' * 2 ^ d"
  have uv: "u - v = real_of_int k * P"
    by (simp add: u v pe k_def P_def algebra_simps)
  have "\<bar>real_of_int k\<bar> * P = \<bar>u - v\<bar>"
    using P by (simp add: uv abs_mult)
  also have "\<dots> \<le> \<bar>u\<bar>"
    by (rule small)
  also have "\<dots> = \<bar>real_of_int m\<bar> * P"
    using P by (simp add: u abs_mult P_def)
  finally have "\<bar>real_of_int k\<bar> \<le> \<bar>real_of_int m\<bar>"
    using P by simp
  then have "\<bar>k\<bar> \<le> \<bar>m\<bar>"
    by linarith
  with m have "\<bar>k\<bar> < 2 ^ 53"
    by simp
  from round64_rep [OF this e] show ?thesis
    by (simp only: uv P_def)
qed

lemma decay_delta_bounds:
  assumes lo: "round64 lo = lo" and hi: "round64 hi = hi" and nonneg: "0 \<le> lo" and le: "lo \<le> hi"
  shows "0 \<le> round64 (round64 (hi - lo) * decayRate64)"
    and "round64 (round64 (hi - lo) * decayRate64) \<le> hi - lo"
proof -
  define D where "D = hi - lo"
  have D0: "0 \<le> D"
    using le by (simp add: D_def)
  have rD0: "0 \<le> round64 D"
    by (rule round64_ge [OF round64_zero D0])
  have "0 \<le> round64 D * decayRate64"
    using rD0 decayRate64_bounds(3) by simp
  from round64_ge [OF round64_zero this]
  show "0 \<le> round64 (round64 (hi - lo) * decayRate64)"
    by (simp only: D_def)
  have exact: "round64 (round64 D * decayRate64) \<le> D" if r: "round64 D = D"
  proof -
    have "D * decayRate64 \<le> D * 1"
      by (rule mult_left_mono) (use decayRate64_bounds(2) D0 in simp_all)
    then have "D * decayRate64 \<le> D"
      by simp
    from round64_le [OF r this] show ?thesis
      by (simp only: r)
  qed
  from round64_fixed_rep [OF hi]
  obtain mh eh where mh: "\<bar>mh\<bar> < 2 ^ 53" and eh: "- 1074 \<le> eh"
    and h: "hi = real_of_int mh * 2 powi eh"
    by blast
  from round64_fixed_rep [OF lo]
  obtain ml el where ml: "\<bar>ml\<bar> < 2 ^ 53" and el: "- 1074 \<le> el"
    and l: "lo = real_of_int ml * 2 powi el"
    by blast
  have "round64 (round64 D * decayRate64) \<le> D"
  proof (cases "eh \<le> el")
    case True
    have "\<bar>hi - lo\<bar> \<le> \<bar>hi\<bar>"
      using nonneg le by simp
    from rep_diff [OF mh eh h l True this] have "round64 D = D"
      by (simp only: D_def)
    then show ?thesis
      by (rule exact)
  next
    case False
    then have lt: "el \<le> eh - 1" by simp
    show ?thesis
    proof (cases "hi / 2 \<le> lo")
      case True
      then have "\<bar>lo - hi\<bar> \<le> \<bar>lo\<bar>"
        using nonneg le by simp
      from rep_diff [OF ml el l h _ this] lt have "round64 (lo - hi) = lo - hi"
        by simp
      then have "round64 (- (lo - hi)) = - (lo - hi)"
        by (rule round64_fixed_minus)
      then have "round64 D = D"
        by (simp add: D_def)
      then show ?thesis
        by (rule exact)
    next
      case False
      then have half: "hi / 2 < D"
        by (simp add: D_def)
      have "hi / 2 = real_of_int mh * 2 powi (eh - 1)"
        by (simp add: h power_int_diff)
      moreover have "round64 (real_of_int mh * 2 powi (eh - 1)) = real_of_int mh * 2 powi (eh - 1)"
        by (rule round64_rep [OF mh]) (use el lt in simp)
      ultimately have rh: "round64 (hi / 2) = hi / 2"
        by simp
      have "D \<le> hi"
        using nonneg by (simp add: D_def)
      from round64_le [OF hi this] have "round64 D \<le> hi" .
      then have "round64 D * decayRate64 \<le> hi * decayRate64"
        by (rule mult_right_mono) (use decayRate64_bounds(3) in simp)
      also have "\<dots> \<le> hi * (1 / 2)"
        by (rule mult_left_mono) (use decayRate64_bounds(2) nonneg le in simp_all)
      finally have "round64 D * decayRate64 \<le> hi / 2"
        by simp
      from round64_le [OF rh this] half show ?thesis
        by simp
    qed
  qed
  then show "round64 (round64 (hi - lo) * decayRate64) \<le> hi - lo"
    by (simp only: D_def)
qed


lemma decay_delta_large:
  assumes lo: "round64 lo = lo" and hi: "round64 hi = hi" and gap: "2 powi (- 48) \<le> hi - lo"
  shows "2 powi (- 52) \<le> round64 (round64 (hi - lo) * decayRate64)"
proof -
  have "2 powi (- 48) \<le> round64 (hi - lo)"
    by (rule round64_ge [OF round64_power2 gap]) simp
  then have "2 powi (- 48) * (1 / 16) \<le> round64 (hi - lo) * decayRate64"
    by (intro mult_mono) (use decayRate64_bounds in simp_all)
  moreover have "(2::real) powi (- 48) * (1 / 16) = 2 powi (- 52)"
    by (simp add: power_int_minus)
  ultimately have "2 powi (- 52) \<le> round64 (hi - lo) * decayRate64"
    by simp
  then show ?thesis
    by (rule round64_ge [OF round64_power2, rotated]) simp
qed

lemma grid_above:
  assumes "0 \<le> x" and "x < 1"
  shows "\<exists>g. round64 g = g \<and> x < g \<and> g \<le> x + 2 powi (- 53)"
proof -
  define m where "m = \<lfloor>x * 2 ^ 53\<rfloor> + 1"
  define g where "g = real_of_int m * 2 powi (- 53)"
  have p: "(2::real) powi (- 53) * 2 ^ 53 = 1"
    by (simp add: power_int_minus)
  have fl: "real_of_int \<lfloor>x * 2 ^ 53\<rfloor> \<le> x * 2 ^ 53" "x * 2 ^ 53 < real_of_int \<lfloor>x * 2 ^ 53\<rfloor> + 1"
    by linarith+
  have m0: "0 < m"
  proof -
    have "0 \<le> x * 2 ^ 53" using assms(1) by simp
    then have "0 \<le> \<lfloor>x * 2 ^ 53\<rfloor>" by simp
    then show ?thesis by (simp add: m_def)
  qed
  have "x * 2 ^ 53 < 2 ^ 53"
    using assms(2) by simp
  then have "\<lfloor>x * 2 ^ 53\<rfloor> < 2 ^ 53"
    by (simp add: floor_less_iff)
  then have m1: "m \<le> 2 ^ 53"
    by (simp add: m_def)
  have gx: "x < g"
  proof -
    have "x * 2 ^ 53 < real_of_int m"
      using fl(2) by (simp add: m_def)
    then have "x * 2 ^ 53 * 2 powi (- 53) < real_of_int m * 2 powi (- 53)"
      by (simp add: power_int_minus)
    then show ?thesis
      using p by (simp add: g_def mult.assoc mult.commute)
  qed
  have gu: "g \<le> x + 2 powi (- 53)"
  proof -
    have "real_of_int m \<le> x * 2 ^ 53 + 1"
      using fl(1) by (simp add: m_def)
    then have "real_of_int m * 2 powi (- 53) \<le> (x * 2 ^ 53 + 1) * 2 powi (- 53)"
      by (rule mult_right_mono) simp
    also have "\<dots> = x + 2 powi (- 53)"
      using p by (simp add: algebra_simps)
    finally show ?thesis
      by (simp add: g_def)
  qed
  have "round64 g = g"
  proof (cases "m = 2 ^ 53")
    case True
    then have "g = 1"
      by (simp add: g_def power_int_minus)
    then show ?thesis
      by (simp add: round64_one)
  next
    case False
    with m0 m1 have "\<bar>m\<bar> < 2 ^ 53"
      by simp
    from round64_rep [OF this, of "- 53"] show ?thesis
      by (simp add: g_def)
  qed
  with gx gu show ?thesis
    by blast
qed

lemma grid_below:
  assumes "0 < x" and "x \<le> 1"
  shows "\<exists>g. round64 g = g \<and> g < x \<and> x - 2 powi (- 53) \<le> g"
proof -
  define m where "m = \<lceil>x * 2 ^ 53\<rceil> - 1"
  define g where "g = real_of_int m * 2 powi (- 53)"
  have p: "(2::real) powi (- 53) * 2 ^ 53 = 1"
    by (simp add: power_int_minus)
  have cl: "x * 2 ^ 53 \<le> real_of_int \<lceil>x * 2 ^ 53\<rceil>" "real_of_int \<lceil>x * 2 ^ 53\<rceil> < x * 2 ^ 53 + 1"
    by linarith+
  have m0: "0 \<le> m"
  proof -
    have "0 < x * 2 ^ 53" using assms(1) by simp
    then have "0 < \<lceil>x * 2 ^ 53\<rceil>" by (simp add: less_ceiling_iff)
    then show ?thesis by (simp add: m_def)
  qed
  have "x * 2 ^ 53 \<le> 2 ^ 53"
    using assms(2) by simp
  then have "x * 2 ^ 53 \<le> real_of_int (2 ^ 53)"
    by simp
  then have "\<lceil>x * 2 ^ 53\<rceil> \<le> 2 ^ 53"
    by (simp only: ceiling_le_iff)
  then have m1: "m < 2 ^ 53"
    by (simp add: m_def)
  have gx: "g < x"
  proof -
    have "real_of_int m < x * 2 ^ 53"
      using cl(2) by (simp add: m_def)
    then have "real_of_int m * 2 powi (- 53) < x * 2 ^ 53 * 2 powi (- 53)"
      by (simp add: power_int_minus)
    then show ?thesis
      using p by (simp add: g_def mult.assoc mult.commute)
  qed
  have gl: "x - 2 powi (- 53) \<le> g"
  proof -
    have "x * 2 ^ 53 - 1 \<le> real_of_int m"
      using cl(1) by (simp add: m_def)
    then have "(x * 2 ^ 53 - 1) * 2 powi (- 53) \<le> real_of_int m * 2 powi (- 53)"
      by (rule mult_right_mono) simp
    moreover have "(x * 2 ^ 53 - 1) * 2 powi (- 53) = x - 2 powi (- 53)"
      using p by (simp add: algebra_simps)
    ultimately show ?thesis
      by (simp add: g_def)
  qed
  from m0 m1 have "\<bar>m\<bar> < 2 ^ 53"
    by simp
  from round64_rep [OF this, of "- 53"] have "round64 g = g"
    by (simp add: g_def)
  with gx gl show ?thesis
    by blast
qed

lemma decay_value_up:
  assumes v: "double01 v" and t: "double01 target" and le: "v \<le> target"
  shows "v \<le> round64 (v + round64 (round64 (target - v) * decayRate64))"
    and "round64 (v + round64 (round64 (target - v) * decayRate64)) \<le> target"
    and "2 powi (- 48) \<le> target - v \<Longrightarrow>
           v < round64 (v + round64 (round64 (target - v) * decayRate64))"
proof -
  define d where "d = round64 (round64 (target - v) * decayRate64)"
  from v t have rv: "round64 v = v" and rt: "round64 target = target" and v0: "0 \<le> v"
    and t1: "target \<le> 1"
    by (simp_all add: double01_def)
  from decay_delta_bounds [OF rv rt v0 le] have d0: "0 \<le> d" and dD: "d \<le> target - v"
    by (simp_all add: d_def)
  from d0 have "v \<le> v + d" by simp
  from round64_ge [OF rv this]
  show "v \<le> round64 (v + round64 (round64 (target - v) * decayRate64))"
    by (simp only: d_def)
  from dD have "v + d \<le> target" by simp
  from round64_le [OF rt this]
  show "round64 (v + round64 (round64 (target - v) * decayRate64)) \<le> target"
    by (simp only: d_def)
  show "v < round64 (v + round64 (round64 (target - v) * decayRate64))"
    if gap: "2 powi (- 48) \<le> target - v"
  proof -
    from decay_delta_large [OF rv rt gap] have big: "2 powi (- 52) \<le> d"
      by (simp only: d_def)
    have "(0::real) < 2 powi (- 48)" by simp
    with gap t1 have "v < 1" by linarith
    from grid_above [OF v0 this]
    obtain g where g: "round64 g = g" and vg: "v < g" and gv: "g \<le> v + 2 powi (- 53)"
      by blast
    have "(2::real) powi (- 53) \<le> 2 powi (- 52)"
      by (rule power_int_increasing) simp_all
    with gv big have "g \<le> v + d" by linarith
    from round64_ge [OF g this] vg show ?thesis
      by (simp add: d_def)
  qed
qed

lemma decay_value_down:
  assumes v: "double01 v" and t: "double01 target" and le: "target \<le> v"
  shows "target \<le> round64 (v + round64 (round64 (target - v) * decayRate64))"
    and "round64 (v + round64 (round64 (target - v) * decayRate64)) \<le> v"
    and "2 powi (- 48) \<le> v - target \<Longrightarrow>
           round64 (v + round64 (round64 (target - v) * decayRate64)) < v"
proof -
  define d where "d = round64 (round64 (v - target) * decayRate64)"
  from v t have rv: "round64 v = v" and rt: "round64 target = target" and t0: "0 \<le> target"
    and v1: "v \<le> 1"
    by (simp_all add: double01_def)
  have "round64 (round64 (target - v) * decayRate64) = round64 (round64 (- (v - target)) * decayRate64)"
    by simp
  also have "\<dots> = round64 (- (round64 (v - target) * decayRate64))"
    by (simp only: round64_minus mult_minus_left)
  also have "\<dots> = - d"
    by (simp only: round64_minus d_def)
  finally have neg: "round64 (round64 (target - v) * decayRate64) = - d" .
  from decay_delta_bounds [OF rt rv t0 le] have d0: "0 \<le> d" and dD: "d \<le> v - target"
    by (simp_all add: d_def)
  from dD have "target \<le> v + - d" by simp
  from round64_ge [OF rt this]
  show "target \<le> round64 (v + round64 (round64 (target - v) * decayRate64))"
    by (simp only: neg)
  from d0 have "v + - d \<le> v" by simp
  from round64_le [OF rv this]
  show "round64 (v + round64 (round64 (target - v) * decayRate64)) \<le> v"
    by (simp only: neg)
  show "round64 (v + round64 (round64 (target - v) * decayRate64)) < v"
    if gap: "2 powi (- 48) \<le> v - target"
  proof -
    from decay_delta_large [OF rt rv gap] have big: "2 powi (- 52) \<le> d"
      by (simp only: d_def)
    have "(0::real) < 2 powi (- 48)" by simp
    with gap t0 have "0 < v" by linarith
    from grid_below [OF this v1]
    obtain g where g: "round64 g = g" and gv: "g < v" and vg: "v - 2 powi (- 53) \<le> g"
      by blast
    have "(2::real) powi (- 53) \<le> 2 powi (- 52)"
      by (rule power_int_increasing) simp_all
    with vg big have "v + - d \<le> g" by linarith
    from round64_le [OF g this] gv show ?thesis
      by (simp add: neg)
  qed
qed

lemma decay_value:
  assumes v: "double01 v" and t: "double01 target"
  shows "approaches target v
           (max 0 (min 1 (round64 (v + round64 (round64 (target - v) * decayRate64)))))"
    and "double01 (max 0 (min 1 (round64 (v + round64 (round64 (target - v) * decayRate64)))))"
proof -
  define w where "w = round64 (v + round64 (round64 (target - v) * decayRate64))"
  from v t have range: "0 \<le> v" "v \<le> 1" "0 \<le> target" "target \<le> 1"
    by (simp_all add: double01_def)
  have rw: "round64 w = w"
    by (simp add: w_def round64_idem)
  have between: "(v \<le> target \<longrightarrow> v \<le> w \<and> w \<le> target \<and> (2 powi (- 48) \<le> target - v \<longrightarrow> v < w))
      \<and> (target \<le> v \<longrightarrow> target \<le> w \<and> w \<le> v \<and> (2 powi (- 48) \<le> v - target \<longrightarrow> w < v))"
    using decay_value_up [OF v t] decay_value_down [OF v t]
    by (simp add: w_def)
  with range have w01: "0 \<le> w" "w \<le> 1"
    by linarith+
  then have clamp: "max 0 (min 1 w) = w"
    by simp
  from between have "approaches target v w"
    unfolding approaches_def by (auto simp: abs_if)
  then show "approaches target v
           (max 0 (min 1 (round64 (v + round64 (round64 (target - v) * decayRate64)))))"
    using clamp by (simp only: w_def)
  from rw w01 have "double01 w"
    by (simp add: double01_def)
  then show "double01 (max 0 (min 1 (round64 (v + round64 (round64 (target - v) * decayRate64)))))"
    using clamp by (simp only: w_def)
qed

section \<open>Repeated decay\<close>

text \<open>
  The binary64 decay has the entries of the exact one: each delta is the exact
  expression with its subtraction and its multiplication rounded.
\<close>

lemma decayPersonality64_entries:
  "traitUpdates (decayPersonality64 p) n =
     (case adaptiveTraits p n of
        None \<Rightarrow> None
      | Some trait \<Rightarrow>
          (case baseTraits p n of
             None \<Rightarrow> None
           | Some baseTrait \<Rightarrow>
               Some (round64 (round64 (trait_value baseTrait - trait_value trait) * round64 decayRate))))"
  and "dom (traitUpdates (decayPersonality64 p)) = dom (traitUpdates (decayPersonality p))"
  and "relationshipUpdates (decayPersonality64 p) = relationshipUpdates (decayPersonality p)"
  by (auto simp: decayPersonality64_def decayPersonality_def mul64_def sub64_def decayRate64_def
      split: option.splits)

lemma double01_half: "double01 (1 / 2)"
  using round64_power2 [of "- 1"] by (simp add: double01_def)

lemma decayStep64_baseTraits: "baseTraits (decayStep64 p) = baseTraits p"
  by (simp add: decayStep64_def applyOffsets64_def)

lemma decayStep64_trait:
  assumes "adaptiveTraits p n = Some t" and "baseTraits p n = Some b"
  shows "adaptiveTraits (decayStep64 p) n =
           Some (t\<lparr>trait_value :=
             max 0 (min 1 (round64 (trait_value t
               + round64 (round64 (trait_value b - trait_value t) * decayRate64))))\<rparr>)"
  using assms
  by (simp add: decayStep64_def applyOffsets64_def decayPersonality64_def
      add64_def mul64_def sub64_def)

lemma decayStep64_mood:
  "mood (decayStep64 p) =
     \<lparr>happiness = max 0 (min 1 (round64 (happiness (mood p)
        + round64 (round64 (1 / 2 - happiness (mood p)) * decayRate64)))),
      energy = max 0 (min 1 (round64 (energy (mood p)
        + round64 (round64 (1 / 2 - energy (mood p)) * decayRate64)))),
      stress = max 0 (min 1 (round64 (stress (mood p)
        + round64 (round64 (1 / 2 - stress (mood p)) * decayRate64)))),
      dominance = max 0 (min 1 (round64 (dominance (mood p)
        + round64 (round64 (1 / 2 - dominance (mood p)) * decayRate64))))\<rparr>"
  by (simp add: decayStep64_def applyOffsets64_def decayPersonality64_def
      add64_def mul64_def sub64_def)

lemma decayStep64_mood_approaches:
  assumes "moodDouble01 (mood p)"
  shows "moodDouble01 (mood (decayStep64 p))"
    and "approaches (1 / 2) (happiness (mood p)) (happiness (mood (decayStep64 p)))"
    and "approaches (1 / 2) (energy (mood p)) (energy (mood (decayStep64 p)))"
    and "approaches (1 / 2) (stress (mood p)) (stress (mood (decayStep64 p)))"
    and "approaches (1 / 2) (dominance (mood p)) (dominance (mood (decayStep64 p)))"
proof -
  from assms have h: "double01 (happiness (mood p))" and e: "double01 (energy (mood p))"
    and s: "double01 (stress (mood p))" and d: "double01 (dominance (mood p))"
    by (simp_all add: moodDouble01_def)
  show "moodDouble01 (mood (decayStep64 p))"
    using decay_value(2) [OF h double01_half] decay_value(2) [OF e double01_half]
      decay_value(2) [OF s double01_half] decay_value(2) [OF d double01_half]
    by (simp add: moodDouble01_def decayStep64_mood)
  show "approaches (1 / 2) (happiness (mood p)) (happiness (mood (decayStep64 p)))"
    using decay_value(1) [OF h double01_half] by (simp add: decayStep64_mood)
  show "approaches (1 / 2) (energy (mood p)) (energy (mood (decayStep64 p)))"
    using decay_value(1) [OF e double01_half] by (simp add: decayStep64_mood)
  show "approaches (1 / 2) (stress (mood p)) (stress (mood (decayStep64 p)))"
    using decay_value(1) [OF s double01_half] by (simp add: decayStep64_mood)
  show "approaches (1 / 2) (dominance (mood p)) (dominance (mood (decayStep64 p)))"
    using decay_value(1) [OF d double01_half] by (simp add: decayStep64_mood)
qed

lemma decay64_iterate_mood:
  assumes "moodDouble01 (mood p)"
  shows "moodDouble01 (mood ((decayStep64 ^^ k) p))"
proof (induction k)
  case 0
  from assms show ?case by simp
next
  case (Suc k)
  from decayStep64_mood_approaches(1) [OF Suc] show ?case by simp
qed

lemma decay64_iterate_trait:
  assumes "adaptiveTraits p n = Some t" and "baseTraits p n = Some b"
    and "double01 (trait_value t)"
  shows "\<exists>t'. adaptiveTraits ((decayStep64 ^^ k) p) n = Some t' \<and> double01 (trait_value t')
           \<and> baseTraits ((decayStep64 ^^ k) p) n = Some b"
proof (induction k)
  case 0
  from assms show ?case by simp
next
  case (Suc k)
  then obtain t' where t': "adaptiveTraits ((decayStep64 ^^ k) p) n = Some t'"
    and d': "double01 (trait_value t')"
    and b': "baseTraits ((decayStep64 ^^ k) p) n = Some b"
    by blast
  show ?case
  proof (cases "double01 (trait_value b)")
    case True
    from decayStep64_trait [OF t' b'] decay_value(2) [OF d' True] b' show ?thesis
      by (simp add: decayStep64_baseTraits)
  next
    case False
    have "double01 (max 0 (min 1 x))" if "round64 x = x" for x
    proof -
      have "max 0 (min 1 x) = x \<or> max 0 (min 1 x) = 0 \<or> max 0 (min 1 x) = 1"
        by (auto simp: max_def min_def)
      with that show ?thesis
        by (auto simp: double01_def round64_zero round64_one)
    qed
    from this [OF round64_idem] decayStep64_trait [OF t' b'] b' show ?thesis
      by (simp add: decayStep64_baseTraits)
  qed
qed

text \<open>
  C3, as the claim states it, fails in two ways. In binary64 a step can leave a value
  where it is without the value being at its target: the happiness
  0.5000000000000004 (\<open>1/2 + 2^-51\<close>) gets the delta \<open>-2^-51 * 0.1\<close>, and the sum
  rounds back to the same number. With values outside [0,1] the clamp of the apply
  step carries a value past its target: the adaptive value 3 with base value 2.5
  becomes 1, the distance growing from 0.5 to 1.5.
\<close>

theorem decayStep64_stalls:
  "happiness (mood poised) = 1 / 2 + 2 powi (- 51)
   \<and> happiness (mood (decayStep64 poised)) = 1 / 2 + 2 powi (- 51)
   \<and> map_option trait_value (baseTraits restless ''sociability'') = Some (5 / 2)
   \<and> map_option trait_value (adaptiveTraits restless ''sociability'') = Some 3
   \<and> map_option trait_value (adaptiveTraits (decayStep64 restless) ''sociability'') = Some 1"
proof -
  have d: "round64 (1 / 2 - (1 / 2 + 2 powi (- 51))) = - (2 powi (- 51))"
    using round64_fixed_minus [OF round64_power2 [of "- 51"]] by simp
  have "round64 (real_of_int (- 3602879701896397) * 2 powi (- 106))
      = real_of_int (- 3602879701896397) * 2 powi (- 106)"
    by (rule round64_rep) simp_all
  then have delta: "round64 (- (2 powi (- 51)) * decayRate64) = - (3602879701896397 / 2 ^ 106)"
    by (simp add: decayRate64_value power_int_minus)
  have "round64 (1 / 2 + 2 powi (- 51) + - (3602879701896397 / 2 ^ 106))
      = real_of_int 4503599627370500 * 2 powi (- 53)"
    by (rule round64_near) (simp_all add: power_int_minus)
  then have sum: "round64 (1 / 2 + 2 powi (- 51) + - (3602879701896397 / 2 ^ 106))
      = 1 / 2 + 2 powi (- 51)"
    by (simp add: power_int_minus)
  have stall: "happiness (mood (decayStep64 poised)) = 1 / 2 + 2 powi (- 51)"
    by (simp only: decayStep64_mood poised_def Mood.simps Personality.simps d delta sum)
      (simp add: power_int_minus)
  have d2: "round64 (5 / 2 - 3) = - (1 / 2)"
    using round64_fixed_minus [OF round64_power2 [of "- 1"]] by simp
  have "round64 (real_of_int (- 3602879701896397) * 2 powi (- 56))
      = real_of_int (- 3602879701896397) * 2 powi (- 56)"
    by (rule round64_rep) simp_all
  then have delta2: "round64 (- (1 / 2) * decayRate64) = - (3602879701896397 / 2 ^ 56)"
    by (simp add: decayRate64_value power_int_minus)
  have "1 \<le> round64 (3 + - (3602879701896397 / 2 ^ 56))"
    by (rule round64_ge [OF round64_one]) simp
  then have clamp: "max 0 (min 1 (round64 (3 + - (3602879701896397 / 2 ^ 56)))) = 1"
    by simp
  have a: "adaptiveTraits restless ''sociability'' = Some (sociabilityTrait 3)"
    and b: "baseTraits restless ''sociability'' = Some (sociabilityTrait (5 / 2))"
    by (simp_all add: restless_def)
  have over: "map_option trait_value (adaptiveTraits (decayStep64 restless) ''sociability'') = Some 1"
    by (simp only: decayStep64_trait [OF a b] sociabilityTrait_def PersonalityTrait.simps
        d2 delta2 clamp option.map)
  from stall over a b show ?thesis
    by (simp add: poised_def sociabilityTrait_def)
qed

text \<open>
  C3, amended. Take the decay with its arithmetic in binary64 and the deltas applied
  as offsets through the clamp of the store. At every iteration, an adaptive trait
  that has a base trait, both values binary64 numbers in [0,1], approaches the base
  value, which stays the same; and, when the four mood fields are binary64 numbers in
  [0,1], each mood field approaches 0.5. Approaching means: the distance to the target
  never increases, the value never passes the target, and the distance strictly
  decreases while it is at least \<open>2^-48\<close>.
\<close>

theorem decayStep64_approaches:
  "(adaptiveTraits p n = Some t \<and> baseTraits p n = Some b
      \<and> double01 (trait_value t) \<and> double01 (trait_value b) \<longrightarrow>
      (\<exists>t0 t1. adaptiveTraits ((decayStep64 ^^ k) p) n = Some t0
         \<and> adaptiveTraits ((decayStep64 ^^ Suc k) p) n = Some t1
         \<and> baseTraits ((decayStep64 ^^ k) p) n = Some b
         \<and> approaches (trait_value b) (trait_value t0) (trait_value t1)))
   \<and> (moodDouble01 (mood p) \<longrightarrow>
        approaches (1 / 2) (happiness (mood ((decayStep64 ^^ k) p)))
          (happiness (mood ((decayStep64 ^^ Suc k) p)))
      \<and> approaches (1 / 2) (energy (mood ((decayStep64 ^^ k) p)))
          (energy (mood ((decayStep64 ^^ Suc k) p)))
      \<and> approaches (1 / 2) (stress (mood ((decayStep64 ^^ k) p)))
          (stress (mood ((decayStep64 ^^ Suc k) p)))
      \<and> approaches (1 / 2) (dominance (mood ((decayStep64 ^^ k) p)))
          (dominance (mood ((decayStep64 ^^ Suc k) p))))"
proof (intro conjI impI)
  assume a: "adaptiveTraits p n = Some t \<and> baseTraits p n = Some b
      \<and> double01 (trait_value t) \<and> double01 (trait_value b)"
  then have "adaptiveTraits p n = Some t" and "baseTraits p n = Some b"
    and "double01 (trait_value t)" and db: "double01 (trait_value b)"
    by simp_all
  from decay64_iterate_trait [OF this(1-3), of k]
  obtain t0 where t0: "adaptiveTraits ((decayStep64 ^^ k) p) n = Some t0"
    and d0: "double01 (trait_value t0)"
    and b0: "baseTraits ((decayStep64 ^^ k) p) n = Some b"
    by blast
  from decayStep64_trait [OF t0 b0] decay_value(1) [OF d0 db] t0 b0
  show "\<exists>t0 t1. adaptiveTraits ((decayStep64 ^^ k) p) n = Some t0
         \<and> adaptiveTraits ((decayStep64 ^^ Suc k) p) n = Some t1
         \<and> baseTraits ((decayStep64 ^^ k) p) n = Some b
         \<and> approaches (trait_value b) (trait_value t0) (trait_value t1)"
    by simp
next
  assume "moodDouble01 (mood p)"
  from decay64_iterate_mood [OF this, of k] have m: "moodDouble01 (mood ((decayStep64 ^^ k) p))" .
  from decayStep64_mood_approaches(2) [OF m]
  show "approaches (1 / 2) (happiness (mood ((decayStep64 ^^ k) p)))
          (happiness (mood ((decayStep64 ^^ Suc k) p)))"
    by simp
  from decayStep64_mood_approaches(3) [OF m]
  show "approaches (1 / 2) (energy (mood ((decayStep64 ^^ k) p)))
          (energy (mood ((decayStep64 ^^ Suc k) p)))"
    by simp
  from decayStep64_mood_approaches(4) [OF m]
  show "approaches (1 / 2) (stress (mood ((decayStep64 ^^ k) p)))
          (stress (mood ((decayStep64 ^^ Suc k) p)))"
    by simp
  from decayStep64_mood_approaches(5) [OF m]
  show "approaches (1 / 2) (dominance (mood ((decayStep64 ^^ k) p)))
          (dominance (mood ((decayStep64 ^^ Suc k) p)))"
    by simp
qed

theorem decayStep64_approaches_witness:
  "adaptiveTraits carol ''sociability'' = Some (sociabilityTrait (1 / 4))
   \<and> baseTraits carol ''sociability'' = Some (sociabilityTrait (3 / 4))
   \<and> double01 (1 / 4) \<and> double01 (3 / 4) \<and> moodDouble01 (mood carol)
   \<and> (\<exists>t0 t1. adaptiveTraits ((decayStep64 ^^ 1) carol) ''sociability'' = Some t0
          \<and> adaptiveTraits ((decayStep64 ^^ Suc 1) carol) ''sociability'' = Some t1
          \<and> approaches (3 / 4) (trait_value t0) (trait_value t1))
   \<and> approaches (1 / 2) (happiness (mood carol)) (happiness (mood (decayStep64 carol)))
   \<and> \<bar>happiness (mood (decayStep64 carol)) - 1 / 2\<bar> < \<bar>happiness (mood carol) - 1 / 2\<bar>"
proof -
  have a: "adaptiveTraits carol ''sociability'' = Some (sociabilityTrait (1 / 4))"
    and b: "baseTraits carol ''sociability'' = Some (sociabilityTrait (3 / 4))"
    by (simp_all add: carol_def)
  have q: "double01 (1 / 4)"
    using round64_power2 [of "- 2"] by (simp add: double01_def power_int_minus)
  have r: "double01 (3 / 4)"
    using round64_rep [of 3 "- 2"] by (simp add: double01_def power_int_minus)
  have one: "double01 1"
    by (simp add: double01_def round64_one)
  have m: "moodDouble01 (mood carol)"
    using q r one double01_half by (simp add: moodDouble01_def carol_def)
  have hyp: "adaptiveTraits carol ''sociability'' = Some (sociabilityTrait (1 / 4))
      \<and> baseTraits carol ''sociability'' = Some (sociabilityTrait (3 / 4))
      \<and> double01 (trait_value (sociabilityTrait (1 / 4)))
      \<and> double01 (trait_value (sociabilityTrait (3 / 4)))"
    using a b q r by (simp add: sociabilityTrait_def)
  from decayStep64_approaches [of carol "''sociability''" "sociabilityTrait (1 / 4)"
      "sociabilityTrait (3 / 4)" 1, THEN conjunct1, rule_format, OF hyp]
  have traits: "\<exists>t0 t1. adaptiveTraits ((decayStep64 ^^ 1) carol) ''sociability'' = Some t0
          \<and> adaptiveTraits ((decayStep64 ^^ Suc 1) carol) ''sociability'' = Some t1
          \<and> approaches (3 / 4) (trait_value t0) (trait_value t1)"
    by (auto simp: sociabilityTrait_def)
  from decayStep64_approaches [of carol "''sociability''" "sociabilityTrait (1 / 4)"
      "sociabilityTrait (3 / 4)" 0, THEN conjunct2, rule_format, OF m]
  have happy: "approaches (1 / 2) (happiness (mood carol)) (happiness (mood (decayStep64 carol)))"
    by simp
  have "(2::real) powi (- 48) \<le> \<bar>happiness (mood carol) - 1 / 2\<bar>"
    by (simp add: carol_def power_int_minus)
  with happy have strict:
    "\<bar>happiness (mood (decayStep64 carol)) - 1 / 2\<bar> < \<bar>happiness (mood carol) - 1 / 2\<bar>"
    by (simp add: approaches_def)
  from a b q r m traits happy strict show ?thesis
    by blast
qed

section \<open>recordInteraction on an existing connection\<close>

lemma rules_new_ConnectionManager:
  "rules new_ConnectionManager = [positiveRule, negativeRule]"
  by (simp add: new_ConnectionManager_def initializeDefaultRules_def addRule_def)

lemma rules_cm_ab: "rules cm_ab = [positiveRule, negativeRule]"
  by (simp add: cm_ab_def connect_def rules_new_ConnectionManager Let_def)

lemma getConnection_cm_ab:
  "getConnection cm_ab ''a'' ''b'' =
     Some \<lparr>strength_value = 0, trust = 0.1, familiarity = 0, lastInteraction = 0\<rparr>"
  by (simp add: cm_ab_def connect_def getConnection_def noOverrides_def Let_def)

lemma recordInteraction_existing:
  assumes "getConnection cm (sourceId i) (targetId i) = Some c"
  shows "getConnection (recordInteraction cm i) (sourceId i) (targetId i) =
           Some ((applyRules (filter (\<lambda>rule. condition rule i) (rules cm)) i c)
                   \<lparr>lastInteraction := timestamp i\<rparr>)"
  using assms
  by (simp add: recordInteraction_def getConnection_def Let_def split: option.splits)

lemma recordInteraction_positive_value:
  assumes "rules cm = [positiveRule, negativeRule]"
    and "getConnection cm (sourceId i) (targetId i) = Some c"
    and "connectionStrength (impact i) > 0"
  shows "getConnection (recordInteraction cm i) (sourceId i) (targetId i) =
           Some \<lparr>strength_value = min 1 (strength_value c + connectionStrength (impact i)),
                 trust = min 1 (trust c + impact_trust (impact i)),
                 familiarity = min 1 (familiarity c + impact_familiarity (impact i)),
                 lastInteraction = timestamp i\<rparr>"
  using assms(1,3)
  by (simp add: recordInteraction_existing [OF assms(2)] positiveRule_def negativeRule_def assign_def)

lemma recordInteraction_negative_value:
  assumes "rules cm = [positiveRule, negativeRule]"
    and "getConnection cm (sourceId i) (targetId i) = Some c"
    and "connectionStrength (impact i) < 0"
  shows "getConnection (recordInteraction cm i) (sourceId i) (targetId i) =
           Some \<lparr>strength_value = max (- 1) (strength_value c + connectionStrength (impact i)),
                 trust = max 0 (trust c + impact_trust (impact i)),
                 familiarity = familiarity c,
                 lastInteraction = timestamp i\<rparr>"
  using assms(1,3)
  by (simp add: recordInteraction_existing [OF assms(2)] positiveRule_def negativeRule_def assign_def)

text \<open>
  C4, as the claim states it, fails when the trust impact of a positive interaction is
  negative: on the connection from a to b with trust 0.1, the interaction with
  connectionStrength 0.1 and trust impact -0.05 lowers the trust to 0.05.
\<close>

theorem recordInteraction_positive_lowers_trust:
  "connectionStrength (impact (interactionOf (- 0.05) 0 0.1)) > 0
   \<and> map_option trust (getConnection cm_ab ''a'' ''b'') = Some 0.1
   \<and> map_option trust (getConnection (recordInteraction cm_ab (interactionOf (- 0.05) 0 0.1)) ''a'' ''b'')
       = Some 0.05"
proof -
  have c: "getConnection cm_ab (sourceId (interactionOf (- 0.05) 0 0.1))
      (targetId (interactionOf (- 0.05) 0 0.1)) =
     Some \<lparr>strength_value = 0, trust = 0.1, familiarity = 0, lastInteraction = 0\<rparr>"
    by (simp add: interactionOf_def getConnection_cm_ab)
  have "getConnection (recordInteraction cm_ab (interactionOf (- 0.05) 0 0.1)) ''a'' ''b'' =
     Some \<lparr>strength_value = 0.1, trust = 0.05, familiarity = 0, lastInteraction = 7\<rparr>"
    using recordInteraction_positive_value [OF rules_cm_ab c]
    by (simp add: interactionOf_def)
  then show ?thesis
    by (simp add: getConnection_cm_ab interactionOf_def)
qed

text \<open>
  C4, amended. With the two default rules, an interaction with a positive
  connectionStrength recorded against an existing connection leaves trust, value and
  familiarity at most 1. The value is not decreased when it was at most 1; the trust is
  not decreased when the trust impact is not negative and the trust was at most 1; the
  familiarity is not decreased when the familiarity impact is not negative and the
  familiarity was at most 1.
\<close>

theorem recordInteraction_positive:
  assumes "rules cm = rules new_ConnectionManager"
    and "getConnection cm (sourceId i) (targetId i) = Some c"
    and "connectionStrength (impact i) > 0"
  shows "\<exists>c'. getConnection (recordInteraction cm i) (sourceId i) (targetId i) = Some c'
           \<and> trust c' \<le> 1 \<and> strength_value c' \<le> 1 \<and> familiarity c' \<le> 1
           \<and> (strength_value c \<le> 1 \<longrightarrow> strength_value c \<le> strength_value c')
           \<and> (0 \<le> impact_trust (impact i) \<and> trust c \<le> 1 \<longrightarrow> trust c \<le> trust c')
           \<and> (0 \<le> impact_familiarity (impact i) \<and> familiarity c \<le> 1
                \<longrightarrow> familiarity c \<le> familiarity c')"
proof -
  from assms(1) have r: "rules cm = [positiveRule, negativeRule]"
    by (simp add: rules_new_ConnectionManager)
  from assms(3) show ?thesis
    by (simp add: recordInteraction_positive_value [OF r assms(2,3)])
qed

theorem recordInteraction_positive_witness:
  "rules cm_ab = rules new_ConnectionManager
   \<and> getConnection cm_ab ''a'' ''b'' =
       Some \<lparr>strength_value = 0, trust = 0.1, familiarity = 0, lastInteraction = 0\<rparr>
   \<and> connectionStrength (impact (interactionOf 0.2 0.3 0.4)) > 0
   \<and> (\<exists>c'. getConnection (recordInteraction cm_ab (interactionOf 0.2 0.3 0.4)) ''a'' ''b'' = Some c'
          \<and> trust c' \<le> 1 \<and> strength_value c' \<le> 1 \<and> familiarity c' \<le> 1
          \<and> 0 \<le> strength_value c' \<and> 0.1 \<le> trust c' \<and> 0 \<le> familiarity c')"
proof -
  have r: "rules cm_ab = rules new_ConnectionManager"
    by (simp add: rules_cm_ab rules_new_ConnectionManager)
  have c: "getConnection cm_ab (sourceId (interactionOf 0.2 0.3 0.4))
      (targetId (interactionOf 0.2 0.3 0.4)) =
     Some \<lparr>strength_value = 0, trust = 0.1, familiarity = 0, lastInteraction = 0\<rparr>"
    by (simp add: interactionOf_def getConnection_cm_ab)
  have s: "connectionStrength (impact (interactionOf 0.2 0.3 0.4)) > 0"
    by (simp add: interactionOf_def)
  from recordInteraction_positive [OF r c s]
  have "\<exists>c'. getConnection (recordInteraction cm_ab (interactionOf 0.2 0.3 0.4)) ''a'' ''b'' = Some c'
          \<and> trust c' \<le> 1 \<and> strength_value c' \<le> 1 \<and> familiarity c' \<le> 1
          \<and> 0 \<le> strength_value c' \<and> 0.1 \<le> trust c' \<and> 0 \<le> familiarity c'"
    by (simp add: interactionOf_def)
  with r s show ?thesis
    by (simp add: getConnection_cm_ab)
qed

section \<open>Ranges\<close>

text \<open>
  C1. The trust of a connection is documented as a number from 0 to 1. The positive
  rule bounds it from above only: the connection from a to b, created by connect with
  trust 0.1 and in range, is left with the trust -0.4, out of range, by the interaction
  with connectionStrength 0.1 and trust impact -0.5.
\<close>

theorem recordInteraction_trust_below_zero:
  "getConnection cm_ab ''a'' ''b'' =
     Some \<lparr>strength_value = 0, trust = 0.1, familiarity = 0, lastInteraction = 0\<rparr>
   \<and> connectionInRange \<lparr>strength_value = 0, trust = 0.1, familiarity = 0, lastInteraction = 0\<rparr>
   \<and> getConnection (recordInteraction cm_ab (interactionOf (- 0.5) 0 0.1)) ''a'' ''b'' =
     Some \<lparr>strength_value = 0.1, trust = - 0.4, familiarity = 0, lastInteraction = 7\<rparr>
   \<and> \<not> connectionInRange
         \<lparr>strength_value = 0.1, trust = - 0.4, familiarity = 0, lastInteraction = 7\<rparr>"
proof -
  have c: "getConnection cm_ab (sourceId (interactionOf (- 0.5) 0 0.1))
      (targetId (interactionOf (- 0.5) 0 0.1)) =
     Some \<lparr>strength_value = 0, trust = 0.1, familiarity = 0, lastInteraction = 0\<rparr>"
    by (simp add: interactionOf_def getConnection_cm_ab)
  have "getConnection (recordInteraction cm_ab (interactionOf (- 0.5) 0 0.1)) ''a'' ''b'' =
     Some \<lparr>strength_value = 0.1, trust = - 0.4, familiarity = 0, lastInteraction = 7\<rparr>"
    using recordInteraction_positive_value [OF rules_cm_ab c]
    by (simp add: interactionOf_def)
  then show ?thesis
    by (simp add: getConnection_cm_ab connectionInRange_def inUnit_def)
qed

text \<open>
  C9. The fields of a connection are documented as a value from -1 to 1 and a trust and
  a familiarity from 0 to 1. connect stores the overrides it is passed as they are:
  the overrides value -3 and trust 5 give a connection that is out of range.
\<close>

theorem connect_stores_unclamped:
  "getConnection
     (connect new_ConnectionManager ''a'' ''b''
        (noOverrides\<lparr>value_opt := Some (- 3), trust_opt := Some 5\<rparr>) 0) ''a'' ''b'' =
     Some \<lparr>strength_value = - 3, trust = 5, familiarity = 0, lastInteraction = 0\<rparr>
   \<and> \<not> connectionInRange
         \<lparr>strength_value = - 3, trust = 5, familiarity = 0, lastInteraction = 0\<rparr>"
  by (simp add: connect_def getConnection_def noOverrides_def connectionInRange_def inUnit_def
      Let_def)

section \<open>What keeps the declared ranges\<close>

text \<open>
  processEvent clamps the relationship value on both sides; the default rules keep a
  connection in range when the trust and familiarity impacts have the sign of
  connectionStrength.
\<close>

lemma recordInteraction_zero_value:
  assumes "rules cm = [positiveRule, negativeRule]"
    and "getConnection cm (sourceId i) (targetId i) = Some c"
    and "connectionStrength (impact i) = 0"
  shows "getConnection (recordInteraction cm i) (sourceId i) (targetId i) =
           Some (c\<lparr>lastInteraction := timestamp i\<rparr>)"
  using assms(1,3)
  by (simp add: recordInteraction_existing [OF assms(2)] positiveRule_def negativeRule_def)

lemma processEvent_relationship_in_range:
  assumes "relationshipUpdates (fst (processEvent up p e)) k = Some r"
  shows "- 1 \<le> r \<and> r \<le> 1"
  using assms
  by (auto simp: processEvent_def calculateRelationshipUpdates_def Let_def split: if_splits)

lemma recordInteraction_keeps_range_same_sign:
  assumes r: "rules cm = [positiveRule, negativeRule]"
    and c: "getConnection cm (sourceId i) (targetId i) = Some c"
    and ok: "connectionInRange c"
    and pos: "connectionStrength (impact i) > 0 \<Longrightarrow>
                0 \<le> impact_trust (impact i) \<and> 0 \<le> impact_familiarity (impact i)"
    and neg: "connectionStrength (impact i) < 0 \<Longrightarrow> impact_trust (impact i) \<le> 0"
  shows "\<exists>c'. getConnection (recordInteraction cm i) (sourceId i) (targetId i) = Some c'
           \<and> connectionInRange c'"
proof -
  consider "connectionStrength (impact i) > 0" | "connectionStrength (impact i) < 0"
    | "connectionStrength (impact i) = 0"
    by linarith
  then show ?thesis
  proof cases
    case 1
    with pos ok show ?thesis
      by (auto simp: recordInteraction_positive_value [OF r c 1] connectionInRange_def inUnit_def)
  next
    case 2
    with neg ok show ?thesis
      by (auto simp: recordInteraction_negative_value [OF r c 2] connectionInRange_def inUnit_def)
  next
    case 3
    with ok show ?thesis
      by (simp add: recordInteraction_zero_value [OF r c 3] connectionInRange_def)
  qed
qed

end
